theory Spec2Isabelle
  imports Complex_Main
begin

section \<open>Python values used by the engine\<close>

text \<open>
  Python strings are modelled as \<^typ>\<open>string\<close>, one \<^typ>\<open>char\<close> per code point, so the
  model covers text whose code points are below 256. On that range \<^verbatim>\<open>str.lower\<close>,
  \<^verbatim>\<open>str.isspace\<close> (the test both \<^verbatim>\<open>str.strip()\<close> and the regular-expression class
  \<^verbatim>\<open>\s\<close> use) and \<^verbatim>\<open>str.upper\<close> are as below; the micro sign (code point 181) and
  the letter y with diaeresis (255) are left out of the range, since their upper-case
  letters lie beyond code point 255 (the model leaves these two unchanged).
  Python floats are modelled by the rationals their literals denote; no claim depends on
  floating-point arithmetic.
\<close>

text \<open>
  The exceptions the modelled code can raise. \<^verbatim>\<open>UnicodeDecodeError\<close> and
  \<^verbatim>\<open>JSONDecodeError\<close> are subclasses of \<^verbatim>\<open>ValueError\<close>.
\<close>

datatype error =
    FileNotFoundError
  | ValueError
  | IndexError
  | AttributeError
  | TypeError
  | KeyError
  | JSONDecodeError
  | UnicodeDecodeError

definition is_ValueError :: "error \<Rightarrow> bool" where
  "is_ValueError e = (e = ValueError \<or> e = JSONDecodeError \<or> e = UnicodeDecodeError)"

text \<open>
  \<^verbatim>\<open>str.upper\<close> of one character: the letters a to z and the letters from code point 224
  to 254 other than the division sign (247) move down by 32; the sharp s (223) becomes
  \<^verbatim>\<open>SS\<close>.
\<close>

definition upper_char :: "char \<Rightarrow> string" where
  "upper_char c =
     (let n = (of_char c :: nat)
      in if (97 \<le> n \<and> n \<le> 122) \<or> (224 \<le> n \<and> n \<le> 254 \<and> n \<noteq> 247)
         then [char_of (n - 32)]
         else if n = 223 then ''SS''
         else [c])"

text \<open>
  \<^verbatim>\<open>str.lower\<close> of one character: the letters A to Z and the letters from code point 192
  to 222 other than the multiplication sign (215) move up by 32.
\<close>

definition lower_char :: "char \<Rightarrow> char" where
  "lower_char c =
     (let n = (of_char c :: nat)
      in if (65 \<le> n \<and> n \<le> 90) \<or> (192 \<le> n \<and> n \<le> 222 \<and> n \<noteq> 215)
         then char_of (n + 32)
         else c)"

definition upper :: "string \<Rightarrow> string" where
  "upper s = concat (map upper_char s)"

definition lower :: "string \<Rightarrow> string" where
  "lower s = map lower_char s"

definition isspace :: "char \<Rightarrow> bool" where
  "isspace c =
     (let n = (of_char c :: nat)
      in (9 \<le> n \<and> n \<le> 13) \<or> (28 \<le> n \<and> n \<le> 32) \<or> n = 133 \<or> n = 160)"

definition strip :: "string \<Rightarrow> string" where
  "strip s = rev (dropWhile isspace (rev (dropWhile isspace s)))"

definition startswith :: "string \<Rightarrow> string \<Rightarrow> bool" where
  "startswith s p = (take (length p) s = p)"

definition endswith :: "string \<Rightarrow> string \<Rightarrow> bool" where
  "endswith s p = (length p \<le> length s \<and> drop (length s - length p) s = p)"

text \<open>\<open>str_in p s\<close> is Python's \<^verbatim>\<open>p in s\<close> on strings.\<close>

primrec str_in :: "string \<Rightarrow> string \<Rightarrow> bool" where
  "str_in p [] = (p = [])"
| "str_in p (c # cs) = (startswith (c # cs) p \<or> str_in p cs)"

text \<open>\<open>replace_char a b s\<close> is \<^verbatim>\<open>s.replace(a, b)\<close> for one-character \<open>a\<close>.\<close>

definition replace_char :: "char \<Rightarrow> string \<Rightarrow> string \<Rightarrow> string" where
  "replace_char a b s = concat (map (\<lambda>c. if c = a then b else [c]) s)"

text \<open>\<open>split_on d s\<close> is \<^verbatim>\<open>s.split(d)\<close> for a one-character separator.\<close>

fun split_on :: "char \<Rightarrow> string \<Rightarrow> string list" where
  "split_on d [] = [[]]"
| "split_on d (c # cs) =
     (if c = d then [] # split_on d cs
      else (case split_on d cs of
              w # ws \<Rightarrow> (c # w) # ws
            | [] \<Rightarrow> [[c]]))"

section \<open>models/signal_models.py\<close>

datatype ProtectionFunction =
    DISTANCE | OVERCURRENT | DIFFERENTIAL | OVERVOLTAGE | UNDERVOLTAGE | FREQUENCY
  | DIRECTIONAL | BREAKER_FAILURE | RECLOSING | SYNCHROCHECK | OVERLOAD | GENERAL
  | METERING | COMMUNICATION | UNKNOWN

text \<open>The enumeration's \<^verbatim>\<open>.value\<close>; \<open>CHR 0xF3\<close> is the letter o with acute accent.\<close>

fun function_value :: "ProtectionFunction \<Rightarrow> string" where
  "function_value DISTANCE = ''Protecci'' @ [CHR 0xF3] @ ''n de distancia''"
| "function_value OVERCURRENT = ''Sobrecorriente''"
| "function_value DIFFERENTIAL = ''Diferencial''"
| "function_value OVERVOLTAGE = ''Sobretensi'' @ [CHR 0xF3] @ ''n''"
| "function_value UNDERVOLTAGE = ''Subtensi'' @ [CHR 0xF3] @ ''n''"
| "function_value FREQUENCY = ''Frecuencia''"
| "function_value DIRECTIONAL = ''Direccional''"
| "function_value BREAKER_FAILURE = ''Falla de interruptor''"
| "function_value RECLOSING = ''Recierre''"
| "function_value SYNCHROCHECK = ''Verificaci'' @ [CHR 0xF3] @ ''n de sincronismo''"
| "function_value OVERLOAD = ''Sobrecarga''"
| "function_value GENERAL = ''General''"
| "function_value METERING = ''Medici'' @ [CHR 0xF3] @ ''n''"
| "function_value COMMUNICATION = ''Comunicaci'' @ [CHR 0xF3] @ ''n''"
| "function_value UNKNOWN = ''Desconocido''"

text \<open>
  \<^verbatim>\<open>AliasEntry\<close>. The field \<^verbatim>\<open>function\<close> is named \<open>function_name\<close> here
  (\<^verbatim>\<open>function\<close> is a keyword of the logic).
\<close>

record AliasEntry =
  relay_name :: string
  standard_name :: string
  relay_model :: string
  signal_type :: string
  function_name :: string
  auto_detected :: bool
  validated :: bool

definition key :: "AliasEntry \<Rightarrow> string" where
  "key e = relay_model e @ ''::'' @ relay_name e"

text \<open>
  \<^verbatim>\<open>ValidationResult\<close>, with the defaults of the dataclass. Its field
  \<^verbatim>\<open>standard_name\<close> is \<open>result_standard_name\<close> here. The free-text \<^verbatim>\<open>message\<close>
  (it holds an arrow character beyond code point 255) and the never assigned
  \<^verbatim>\<open>alias_entry\<close> are left out.
\<close>

record ValidationResult =
  xrio_name :: string
  result_standard_name :: string
  match_type :: string
  confidence :: rat

definition new_ValidationResult :: "string \<Rightarrow> ValidationResult" where
  "new_ValidationResult n =
     \<lparr>xrio_name = n, result_standard_name = [], match_type = [], confidence = 0\<rparr>"

datatype SignalType = ANALOG | BINARY

text \<open>
  \<^verbatim>\<open>ComtradeChannel\<close> and \<^verbatim>\<open>ComtradeConfig\<close>. The channel's fields carry the prefix
  \<open>ch_\<close>, since \<^verbatim>\<open>name\<close> and \<^verbatim>\<open>signal_type\<close> also name fields of other classes.
\<close>

record ComtradeChannel =
  ch_index :: int
  ch_name :: string
  ch_phase :: string
  ch_circuit_component :: string
  ch_unit :: string
  ch_multiplier :: rat
  ch_offset :: rat
  ch_skew :: rat
  ch_min_val :: rat
  ch_max_val :: rat
  ch_primary :: rat
  ch_secondary :: rat
  ch_ps_type :: string
  ch_signal_type :: SignalType
  ch_normal_state :: int

definition new_ComtradeChannel :: "SignalType \<Rightarrow> ComtradeChannel" where
  "new_ComtradeChannel t =
     \<lparr>ch_index = 0, ch_name = [], ch_phase = [], ch_circuit_component = [],
      ch_unit = [], ch_multiplier = 1, ch_offset = 0, ch_skew = 0,
      ch_min_val = - 99999, ch_max_val = 99999, ch_primary = 1, ch_secondary = 1,
      ch_ps_type = ''P'', ch_signal_type = t, ch_normal_state = 0\<rparr>"

record ComtradeConfig =
  station_name :: string
  rec_dev_id :: string
  rev_year :: int
  num_analog :: int
  num_digital :: int
  analog_channels :: "ComtradeChannel list"
  digital_channels :: "ComtradeChannel list"
  line_freq :: rat
  sampling_rates :: "(rat \<times> int) list"
  start_timestamp :: string
  trigger_timestamp :: string
  data_format :: string
  time_multiplier :: rat
  file_path :: string

definition new_ComtradeConfig :: "string \<Rightarrow> ComtradeConfig" where
  "new_ComtradeConfig path =
     \<lparr>station_name = [], rec_dev_id = [], rev_year = 1999, num_analog = 0,
      num_digital = 0, analog_channels = [], digital_channels = [], line_freq = 60,
      sampling_rates = [], start_timestamp = [], trigger_timestamp = [],
      data_format = ''ASCII'', time_multiplier = 1, file_path = path\<rparr>"

section \<open>core/alias_database.py\<close>

text \<open>
  \<^verbatim>\<open>AliasDatabase._entries\<close> is a Python dictionary: an association list in insertion
  order whose keys are pairwise distinct. Assigning to a key that is present replaces the
  value in place; a new key goes to the end. Writing the backing file (\<^verbatim>\<open>save\<close>) does
  not change the entries and is not part of the model.
\<close>

type_synonym store = "(string \<times> AliasEntry) list"

fun dict_set :: "('k \<times> 'v) list \<Rightarrow> 'k \<Rightarrow> 'v \<Rightarrow> ('k \<times> 'v) list" where
  "dict_set [] k v = [(k, v)]"
| "dict_set ((k', v') # kvs) k v =
     (if k' = k then (k, v) # kvs else (k', v') # dict_set kvs k v)"

definition is_dict :: "('k \<times> 'v) list \<Rightarrow> bool" where
  "is_dict d = distinct (map fst d)"

definition add :: "store \<Rightarrow> AliasEntry \<Rightarrow> bool \<times> store" where
  "add entries entry =
     (let k = key entry;
          is_new = (k \<notin> set (map fst entries))
      in (is_new, dict_set entries k entry))"


definition get :: "store \<Rightarrow> string \<Rightarrow> string \<Rightarrow> AliasEntry option" where
  "get entries relay_model' relay_name' = map_of entries (relay_model' @ ''::'' @ relay_name')"

definition find_by_relay_name :: "store \<Rightarrow> string \<Rightarrow> AliasEntry list" where
  "find_by_relay_name entries relay_name' =
     filter (\<lambda>entry. lower (relay_name entry) = lower relay_name') (map snd entries)"

text \<open>An \<^verbatim>\<open>AliasEntry\<close> object is always true in a condition; a list is true when not empty.\<close>

definition find_standard_for :: "store \<Rightarrow> string \<Rightarrow> string \<Rightarrow> string option" where
  "find_standard_for entries relay_model' relay_name' =
     (case get entries relay_model' relay_name' of
        Some entry \<Rightarrow> Some (standard_name entry)
      | None \<Rightarrow>
          (case find_by_relay_name entries relay_name' of
             m # ms \<Rightarrow> Some (standard_name m)
           | [] \<Rightarrow> None))"

section \<open>core/xrio_parser.py: the signal-function classifier\<close>

text \<open>\<^verbatim>\<open>FUNCTION_KEYWORDS\<close>, in the order the dictionary literal lists its items.\<close>

definition FUNCTION_KEYWORDS :: "(ProtectionFunction \<times> string list) list" where
  "FUNCTION_KEYWORDS =
     [(DISTANCE, [''Z'', ''DIST'', ''21'', ''ZONE'', ''MHO'', ''QUAD'', ''REACH'', ''IMPEDANCE'']),
      (OVERCURRENT, [''OC'', ''50'', ''51'', ''OVERCURRENT'', ''I>'', ''I>>'', ''IINST'', ''TOC'',
                     ''DTOC'', ''IDMT'']),
      (DIFFERENTIAL, [''DIFF'', ''87'', ''RESTRAIN'', ''OPERATE'', ''BIAS'']),
      (OVERVOLTAGE, [''OV'', ''59'', ''V>'', ''V>>'', ''OVERVOLT'']),
      (UNDERVOLTAGE, [''UV'', ''27'', ''V<'', ''V<<'', ''UNDERVOLT'']),
      (FREQUENCY, [''FREQ'', ''81'', ''F<'', ''F>'', ''ROCOF'', ''DF/DT'']),
      (DIRECTIONAL, [''DIR'', ''67'', ''DIRECTIONAL'', ''ANGLE'', ''TORQUE'']),
      (BREAKER_FAILURE, [''BF'', ''50BF'', ''BREAKER'', ''CBF'', ''CB FAIL'']),
      (RECLOSING, [''RECL'', ''79'', ''AUTORECL'', ''AR'', ''RECLOSE'']),
      (SYNCHROCHECK, [''SYNC'', ''25'', ''SYNCHRO'', ''CHECK SYNC'']),
      (METERING, [''METER'', ''MEAS'', ''MEASURE'', ''MW'', ''MVAR'', ''PF'', ''KWH'']),
      (COMMUNICATION, [''COMM'', ''GOOSE'', ''SV'', ''IEC61850'', ''DNP'', ''MODBUS'',
                       ''TRIP SEND''])]"

definition classify_signal_function :: "string \<Rightarrow> ProtectionFunction" where
  "classify_signal_function nm =
     (let up = replace_char CHR ''-'' '' '' (replace_char CHR ''_'' '' '' (upper nm))
      in case find (\<lambda>(func, keywords). \<exists>kw \<in> set keywords. str_in kw up) FUNCTION_KEYWORDS of
           Some (func, keywords) \<Rightarrow> func
         | None \<Rightarrow>
             if \<exists>c \<in> set [''IA'', ''IB'', ''IC'', ''IN'', ''I0'', ''I1'', ''I2'']. str_in c up
             then OVERCURRENT
             else if \<exists>c \<in> set [''VA'', ''VB'', ''VC'', ''VN'', ''V0'', ''V1'', ''V2'',
                                  ''UA'', ''UB'', ''UC'']. str_in c up
             then OVERVOLTAGE
             else UNKNOWN)"

section \<open>core/comtrade_parser.py: the standard-name catalog\<close>

text \<open>
  \<^verbatim>\<open>ComtradeStandardTemplate\<close>. The validator reads only the \<^verbatim>\<open>'name'\<close> item of each
  catalog record, so the two catalogs are the lists of those names, in the source's order.
\<close>

definition STANDARD_ANALOG_SIGNALS :: "string list" where
  "STANDARD_ANALOG_SIGNALS =
     [''IA'', ''IB'', ''IC'', ''IN'', ''I0'', ''I1'', ''I2'', ''VA'', ''VB'', ''VC'', ''VN'',
      ''V0'', ''V1'', ''V2'', ''P'', ''Q'', ''F'']"

definition STANDARD_DIGITAL_SIGNALS :: "string list" where
  "STANDARD_DIGITAL_SIGNALS =
     [''TRIP'', ''TRIP_A'', ''TRIP_B'', ''TRIP_C'', ''CLOSE'', ''RECLOSE'', ''21_PICKUP'',
      ''21_Z1'', ''21_Z2'', ''21_Z3'', ''50_PICKUP'', ''51_PICKUP'', ''67_FWD'', ''67_REV'',
      ''59_PICKUP'', ''27_PICKUP'', ''81_PICKUP'', ''87_OPERATE'', ''CB_OPEN'', ''CB_CLOSE'',
      ''ALARM'', ''COMM_FAIL'']"

definition get_all_standard_signal_names :: "string list" where
  "get_all_standard_signal_names = STANDARD_ANALOG_SIGNALS @ STANDARD_DIGITAL_SIGNALS"

section \<open>core/validator.py\<close>

text \<open>The characters the substitution \<^verbatim>\<open>re.sub(r'[_\-\s\.]+', '', n)\<close> deletes.\<close>

definition is_separator :: "char \<Rightarrow> bool" where
  "is_separator c = (c = CHR ''_'' \<or> c = CHR ''-'' \<or> isspace c \<or> c = CHR ''.'')"

definition prefixes :: "string list" where
  "prefixes = [''REL_'', ''DIG_'', ''ANA_'', ''BIN_'', ''CH_'', ''SIG_'']"

text \<open>One round of the loop over \<^verbatim>\<open>prefixes\<close>; \<open>drop k n\<close> is the slice \<^verbatim>\<open>n[k:]\<close>.\<close>

definition strip_prefix :: "string \<Rightarrow> string \<Rightarrow> string" where
  "strip_prefix n prefix =
     (if startswith n (replace_char CHR ''_'' [] prefix)
      then drop (length prefix - 1) n
      else n)"

definition normalize_name :: "string \<Rightarrow> string" where
  "normalize_name nm =
     (let n = strip (upper nm);
          n = filter (\<lambda>c. \<not> is_separator c) n
      in foldl strip_prefix n prefixes)"

text \<open>\<open>drop (length n - 2) n\<close> is the slice \<^verbatim>\<open>n[-2:]\<close>: the whole of a shorter string.\<close>

definition extract_phase :: "string \<Rightarrow> string" where
  "extract_phase nm =
     (let n = upper nm
      in if endswith n ''A'' \<or> str_in ''PHA'' n \<or> str_in ''_A'' n then ''A''
         else if endswith n ''B'' \<or> str_in ''PHB'' n \<or> str_in ''_B'' n then ''B''
         else if endswith n ''C'' \<or> str_in ''PHC'' n \<or> str_in ''_C'' n then ''C''
         else if str_in ''N'' (drop (length n - 2) n) \<or> str_in ''NEUT'' n then ''N''
         else [])"

definition extract_signal_type_indicator :: "string \<Rightarrow> string" where
  "extract_signal_type_indicator nm =
     (let n = upper nm
      in if \<exists>k \<in> set [''VOLT'', ''V_'', ''_V'', ''VA'', ''VB'', ''VC'',
                        ''UA'', ''UB'', ''UC'', ''TENSION'']. str_in k n then ''V''
         else if \<exists>k \<in> set [''CURR'', ''I_'', ''_I'', ''IA'', ''IB'', ''IC'',
                             ''AMP'', ''CORR'']. str_in k n then ''I''
         else [])"

definition fuzzy_match :: "string \<Rightarrow> string \<Rightarrow> bool" where
  "fuzzy_match name1 name2 =
     (let n1 = normalize_name name1;
          n2 = normalize_name name2
      in if n1 = n2 then True
         else if str_in n1 n2 \<or> str_in n2 n1 then True
         else
           (let phase1 = extract_phase n1;
                phase2 = extract_phase n2;
                type1 = extract_signal_type_indicator n1;
                type2 = extract_signal_type_indicator n2
            in if phase1 \<noteq> [] \<and> phase2 \<noteq> [] \<and> type1 \<noteq> [] \<and> type2 \<noteq> []
               then phase1 = phase2 \<and> type1 = type2
               else False))"

definition heuristic_match :: "string \<Rightarrow> string \<Rightarrow> string option" where
  "heuristic_match xrio_name' signal_type' =
     (let n = normalize_name xrio_name';
          phase = extract_phase n;
          sig_ind = extract_signal_type_indicator n;
          candidates = (if signal_type' = ''analog'' then STANDARD_ANALOG_SIGNALS
                        else STANDARD_DIGITAL_SIGNALS)
      in find (\<lambda>std.
                 (let std_norm = normalize_name std
                  in str_in std_norm n \<or> str_in n std_norm \<or>
                     (signal_type' = ''analog'' \<and> phase \<noteq> [] \<and> sig_ind \<noteq> [] \<and>
                      str_in sig_ind (upper std) \<and> str_in phase (upper std))))
              candidates)"

definition auto_add_alias ::
  "store \<Rightarrow> string \<Rightarrow> string \<Rightarrow> string \<Rightarrow> string \<Rightarrow> bool \<Rightarrow> store" where
  "auto_add_alias entries relay_name' standard_name' relay_model' signal_type' auto =
     (let func = classify_signal_function relay_name';
          entry = \<lparr>relay_name = relay_name', standard_name = standard_name',
                   relay_model = relay_model', signal_type = signal_type',
                   function_name = function_value func,
                   auto_detected = auto, validated = (\<not> auto)\<rparr>
      in snd (add entries entry))"

text \<open>
  \<^verbatim>\<open>SignalValidator._validate_signal\<close>, returning the result and the alias store it
  leaves. The catalog \<^verbatim>\<open>self._standard_names\<close> is a parameter (the constructor sets it
  to \<open>get_all_standard_signal_names\<close>). An empty alias name counts as no alias
  (\<^verbatim>\<open>if alias_name:\<close>); a supplied configuration object is always true.
\<close>

definition validate_signal ::
  "string list \<Rightarrow> store \<Rightarrow> string \<Rightarrow> string \<Rightarrow> string \<Rightarrow> ComtradeConfig option
     \<Rightarrow> ValidationResult \<times> store" where
  "validate_signal standard_names entries xrio_name' relay_model' signal_type' comtrade_config =
     (let result = new_ValidationResult xrio_name'
      in if upper xrio_name' \<in> set (map upper standard_names)
         then (result\<lparr>result_standard_name := xrio_name', match_type := ''exact'',
                      confidence := 1\<rparr>,
               auto_add_alias entries xrio_name' xrio_name' relay_model' signal_type' True)
         else
           (case find_standard_for entries relay_model' xrio_name' of
              Some (c # cs) \<Rightarrow>
                (result\<lparr>result_standard_name := c # cs, match_type := ''alias'',
                        confidence := 95 / 100\<rparr>, entries)
            | _ \<Rightarrow>
                (case (case comtrade_config of
                         None \<Rightarrow> None
                       | Some config \<Rightarrow>
                           find (\<lambda>ch. fuzzy_match xrio_name' (ch_name ch))
                             (if signal_type' = ''analog'' then analog_channels config
                              else digital_channels config)) of
                   Some ch \<Rightarrow>
                     (result\<lparr>result_standard_name := ch_name ch, match_type := ''fuzzy'',
                             confidence := 7 / 10\<rparr>,
                      auto_add_alias entries xrio_name' (ch_name ch) relay_model'
                        signal_type' True)
                 | None \<Rightarrow>
                     (case heuristic_match xrio_name' signal_type' of
                        Some (c # cs) \<Rightarrow>
                          (result\<lparr>result_standard_name := c # cs, match_type := ''fuzzy'',
                                  confidence := 5 / 10\<rparr>, entries)
                      | _ \<Rightarrow>
                          (result\<lparr>match_type := ''new'', confidence := 0\<rparr>, entries)))))"

section \<open>core/comtrade_parser.py: the parser\<close>

text \<open>
  A call either raises an exception (\<open>Inl\<close>) or returns a value (\<open>Inr\<close>).
  \<open>and_then\<close> runs the next statement when the first did not raise;
  \<open>except_ValueError body handler\<close> is \<^verbatim>\<open>try: body except ValueError: handler\<close>, which
  catches \<^verbatim>\<open>ValueError\<close> and its subclasses and lets every other exception through.
\<close>

type_synonym 'a result = "error + 'a"

definition and_then :: "'a result \<Rightarrow> ('a \<Rightarrow> 'b result) \<Rightarrow> 'b result" where
  "and_then r f = (case r of Inl e \<Rightarrow> Inl e | Inr x \<Rightarrow> f x)"

definition except_ValueError :: "'a result \<Rightarrow> 'a result \<Rightarrow> 'a result" where
  "except_ValueError body handler =
     (case body of Inl e \<Rightarrow> (if is_ValueError e then handler else Inl e) | Inr x \<Rightarrow> Inr x)"

text \<open>
  \<^verbatim>\<open>xs[i]\<close>: an index below zero counts from the end of the list, and an index outside the
  list raises \<^verbatim>\<open>IndexError\<close>.
\<close>

definition py_index :: "'a list \<Rightarrow> int \<Rightarrow> 'a result" where
  "py_index xs i =
     (if 0 \<le> i \<and> i < int (length xs) then Inr (xs ! nat i)
      else if i < 0 \<and> - int (length xs) \<le> i then Inr (xs ! nat (int (length xs) + i))
      else Inl IndexError)"

text \<open>
  The built-in conversions \<^verbatim>\<open>int(s)\<close> and \<^verbatim>\<open>float(s)\<close> of a string are parameters
  \<open>py_int\<close> and \<open>py_float\<close> of the parser: \<open>None\<close> where the built-in raises
  \<^verbatim>\<open>ValueError\<close> (it raises nothing else on a string), the number otherwise. Every
  theorem below holds for all such functions.
\<close>

definition int_of :: "(string \<Rightarrow> int option) \<Rightarrow> string \<Rightarrow> int result" where
  "int_of py_int s = (case py_int s of None \<Rightarrow> Inl ValueError | Some n \<Rightarrow> Inr n)"

definition float_of :: "(string \<Rightarrow> rat option) \<Rightarrow> string \<Rightarrow> rat result" where
  "float_of py_float s = (case py_float s of None \<Rightarrow> Inl ValueError | Some x \<Rightarrow> Inr x)"

text \<open>\<^verbatim>\<open>str(n)\<close> of an integer, in decimal.\<close>

fun str_nat :: "nat \<Rightarrow> string" where
  "str_nat n =
     (if n < 10 then [''0123456789'' ! n]
      else str_nat (n div 10) @ [''0123456789'' ! (n mod 10)])"

declare str_nat.simps [simp del]

definition str_int :: "int \<Rightarrow> string" where
  "str_int i = (if i < 0 then CHR ''-'' # str_nat (nat (- i)) else str_nat (nat i))"

definition split_cfg_line :: "string \<Rightarrow> string list" where
  "split_cfg_line line = map strip (split_on CHR '','' line)"

text \<open>
  The parser's state between the sections of the file is the configuration built so far
  and \<^verbatim>\<open>line_idx\<close>. Line 1: station name, device id, revision year.
\<close>

definition parse_line1 ::
  "(string \<Rightarrow> int option) \<Rightarrow> string list \<Rightarrow> ComtradeConfig \<times> int
     \<Rightarrow> (ComtradeConfig \<times> int) result" where
  "parse_line1 py_int lines st =
     (case st of (config, line_idx) \<Rightarrow>
        and_then (py_index lines line_idx) (\<lambda>line.
          let parts = split_cfg_line line
          in and_then (if length parts > 0 then py_index parts 0 else Inr []) (\<lambda>p0.
             and_then (if length parts > 1 then py_index parts 1 else Inr []) (\<lambda>p1.
             and_then (if length parts > 2
                       then except_ValueError
                              (and_then (py_index parts 2) (int_of py_int)) (Inr 1999)
                       else Inr (rev_year config)) (\<lambda>year.
             Inr (config\<lparr>station_name := p0, rec_dev_id := p1, rev_year := year\<rparr>,
                  line_idx + 1))))))"

text \<open>
  Line 2, one round of the loop over \<^verbatim>\<open>parts[1:]\<close>: a token that ends in \<^verbatim>\<open>A\<close> or
  \<^verbatim>\<open>D\<close> sets the analog or the digital count to the integer before the letter
  (\<open>butlast p\<close> is \<^verbatim>\<open>p[:-1]\<close>), and leaves it alone when that is no integer.
\<close>

definition count_token :: "(string \<Rightarrow> int option) \<Rightarrow> int \<times> int \<Rightarrow> string \<Rightarrow> int \<times> int" where
  "count_token py_int nums p0 =
     (case nums of (num_a, num_d) \<Rightarrow>
        let p = strip p0
        in if endswith (upper p) ''A''
           then (case py_int (butlast p) of Some n \<Rightarrow> (n, num_d) | None \<Rightarrow> (num_a, num_d))
           else if endswith (upper p) ''D''
           then (case py_int (butlast p) of Some n \<Rightarrow> (num_a, n) | None \<Rightarrow> (num_a, num_d))
           else (num_a, num_d))"

definition parse_line2 ::
  "(string \<Rightarrow> int option) \<Rightarrow> string list \<Rightarrow> ComtradeConfig \<times> int
     \<Rightarrow> (ComtradeConfig \<times> int) result" where
  "parse_line2 py_int lines st =
     (case st of (config, line_idx) \<Rightarrow>
        and_then (py_index lines line_idx) (\<lambda>line.
          let parts = split_cfg_line line
          in if length parts \<ge> 1
             then and_then (py_index parts 0) (\<lambda>total.
                    (case foldl (count_token py_int) (0, 0) (tl parts) of (num_a, num_d) \<Rightarrow>
                       let num_a' = (if num_a = 0 \<and> num_d = 0 \<and> length parts = 1
                                     then (case py_int total of Some tt \<Rightarrow> tt | None \<Rightarrow> num_a)
                                     else num_a)
                       in Inr (config\<lparr>num_analog := num_a', num_digital := num_d\<rparr>,
                               line_idx + 1)))
             else Inr (config, line_idx + 1)))"

definition float_field ::
  "(string \<Rightarrow> rat option) \<Rightarrow> string list \<Rightarrow> nat \<Rightarrow> rat \<Rightarrow> rat \<Rightarrow> rat result" where
  "float_field py_float parts idx default' current =
     (if length parts > idx
      then except_ValueError (and_then (py_index parts (int idx)) (float_of py_float))
             (Inr default')
      else Inr current)"

definition parse_analog_channel ::
  "(string \<Rightarrow> int option) \<Rightarrow> (string \<Rightarrow> rat option) \<Rightarrow> string \<Rightarrow> int
     \<Rightarrow> ComtradeChannel result" where
  "parse_analog_channel py_int py_float line default_idx =
     (let ch = new_ComtradeChannel ANALOG;
          parts = split_cfg_line line
      in and_then (except_ValueError
                     (if length parts > 0 then and_then (py_index parts 0) (int_of py_int)
                      else Inr default_idx)
                     (Inr default_idx)) (\<lambda>idx.
         and_then (if length parts > 1 then py_index parts 1
                   else Inr (''A'' @ str_int default_idx)) (\<lambda>nm.
         and_then (if length parts > 2 then py_index parts 2 else Inr []) (\<lambda>ph.
         and_then (if length parts > 3 then py_index parts 3 else Inr []) (\<lambda>ccbm.
         and_then (if length parts > 4 then py_index parts 4 else Inr []) (\<lambda>uu.
         and_then (float_field py_float parts 5 1 (ch_multiplier ch)) (\<lambda>a.
         and_then (float_field py_float parts 6 0 (ch_offset ch)) (\<lambda>b.
         and_then (float_field py_float parts 7 0 (ch_skew ch)) (\<lambda>sk.
         and_then (float_field py_float parts 8 (- 99999) (ch_min_val ch)) (\<lambda>mn.
         and_then (float_field py_float parts 9 99999 (ch_max_val ch)) (\<lambda>mx.
         and_then (float_field py_float parts 10 1 (ch_primary ch)) (\<lambda>pr.
         and_then (float_field py_float parts 11 1 (ch_secondary ch)) (\<lambda>se.
         and_then (if length parts > 12 then and_then (py_index parts 12) (\<lambda>p. Inr (strip p))
                   else Inr ''P'') (\<lambda>ps.
         Inr (ch\<lparr>ch_index := idx, ch_name := nm, ch_phase := ph,
                 ch_circuit_component := ccbm, ch_unit := uu, ch_multiplier := a,
                 ch_offset := b, ch_skew := sk, ch_min_val := mn, ch_max_val := mx,
                 ch_primary := pr, ch_secondary := se, ch_ps_type := ps\<rparr>)))))))))))))))"

definition parse_digital_channel ::
  "(string \<Rightarrow> int option) \<Rightarrow> string \<Rightarrow> int \<Rightarrow> ComtradeChannel result" where
  "parse_digital_channel py_int line default_idx =
     (let ch = new_ComtradeChannel BINARY;
          parts = split_cfg_line line
      in and_then (except_ValueError
                     (if length parts > 0 then and_then (py_index parts 0) (int_of py_int)
                      else Inr default_idx)
                     (Inr default_idx)) (\<lambda>idx.
         and_then (if length parts > 1 then py_index parts 1
                   else Inr (''D'' @ str_int default_idx)) (\<lambda>nm.
         and_then (if length parts > 2 then py_index parts 2 else Inr []) (\<lambda>ph.
         and_then (if length parts > 3 then py_index parts 3 else Inr []) (\<lambda>ccbm.
         and_then (if length parts > 4
                   then except_ValueError (and_then (py_index parts 4) (int_of py_int)) (Inr 0)
                   else Inr (ch_normal_state ch)) (\<lambda>y.
         Inr (ch\<lparr>ch_index := idx, ch_name := nm, ch_phase := ph,
                 ch_circuit_component := ccbm, ch_normal_state := y\<rparr>)))))))"

text \<open>
  The two channel loops, \<^verbatim>\<open>for i in range(n)\<close> with a \<^verbatim>\<open>break\<close> at the end of the
  file: \<open>k\<close> counts the rounds that are left (\<open>nat n\<close> at the start, so none for a
  negative \<open>n\<close>) and \<open>i\<close> is the loop variable.
\<close>

fun channel_loop ::
  "(string \<Rightarrow> int \<Rightarrow> ComtradeChannel result) \<Rightarrow> string list \<Rightarrow> nat \<Rightarrow> int
     \<Rightarrow> ComtradeChannel list \<times> int \<Rightarrow> (ComtradeChannel list \<times> int) result" where
  "channel_loop parse lines 0 i (chs, line_idx) = Inr (chs, line_idx)"
| "channel_loop parse lines (Suc k) i (chs, line_idx) =
     (if line_idx \<ge> int (length lines) then Inr (chs, line_idx)
      else and_then (py_index lines line_idx) (\<lambda>line.
           and_then (parse line (i + 1)) (\<lambda>ch.
           channel_loop parse lines k (i + 1) (chs @ [ch], line_idx + 1))))"

definition parse_channels ::
  "(string \<Rightarrow> int option) \<Rightarrow> (string \<Rightarrow> rat option) \<Rightarrow> string list \<Rightarrow> ComtradeConfig \<times> int
     \<Rightarrow> (ComtradeConfig \<times> int) result" where
  "parse_channels py_int py_float lines st =
     (case st of (config, line_idx) \<Rightarrow>
        and_then (channel_loop (parse_analog_channel py_int py_float) lines
                    (nat (num_analog config)) 0 (analog_channels config, line_idx))
          (\<lambda>(achs, line_idx1).
        and_then (channel_loop (parse_digital_channel py_int) lines
                    (nat (num_digital config)) 0 (digital_channels config, line_idx1))
          (\<lambda>(dchs, line_idx2).
        Inr (config\<lparr>analog_channels := achs, digital_channels := dchs\<rparr>, line_idx2))))"

text \<open>Line frequency, then the number of sampling rates (a local variable).\<close>

definition parse_line_freq ::
  "(string \<Rightarrow> rat option) \<Rightarrow> string list \<Rightarrow> ComtradeConfig \<times> int
     \<Rightarrow> (ComtradeConfig \<times> int) result" where
  "parse_line_freq py_float lines st =
     (case st of (config, line_idx) \<Rightarrow>
        if line_idx < int (length lines)
        then and_then (except_ValueError
                         (and_then (py_index lines line_idx) (float_of py_float)) (Inr 60))
               (\<lambda>f. Inr (config\<lparr>line_freq := f\<rparr>, line_idx + 1))
        else Inr (config, line_idx))"

definition parse_num_rates ::
  "(string \<Rightarrow> int option) \<Rightarrow> string list \<Rightarrow> int \<Rightarrow> (int \<times> int) result" where
  "parse_num_rates py_int lines line_idx =
     (if line_idx < int (length lines)
      then and_then (except_ValueError
                       (and_then (py_index lines line_idx) (int_of py_int)) (Inr 0))
             (\<lambda>num_rates. Inr (num_rates, line_idx + 1))
      else Inr (0, line_idx))"

text \<open>
  The loop over the sampling-rate lines, \<^verbatim>\<open>for _ in range(max(num_rates, 1))\<close>. A line
  with fewer than two fields, or whose fields are not numbers, adds no pair; the line is
  consumed all the same.
\<close>

fun rates_loop ::
  "(string \<Rightarrow> int option) \<Rightarrow> (string \<Rightarrow> rat option) \<Rightarrow> string list \<Rightarrow> nat
     \<Rightarrow> (rat \<times> int) list \<times> int \<Rightarrow> ((rat \<times> int) list \<times> int) result" where
  "rates_loop py_int py_float lines 0 (rates, line_idx) = Inr (rates, line_idx)"
| "rates_loop py_int py_float lines (Suc k) (rates, line_idx) =
     (if line_idx \<ge> int (length lines) then Inr (rates, line_idx)
      else and_then (py_index lines line_idx) (\<lambda>line.
           let parts = split_cfg_line line
           in and_then (if length parts \<ge> 2
                        then except_ValueError
                               (and_then (and_then (py_index parts 0) (float_of py_float))
                                  (\<lambda>rate.
                                and_then (and_then (py_index parts 1) (int_of py_int))
                                  (\<lambda>end_sample. Inr (rates @ [(rate, end_sample)]))))
                               (Inr rates)
                        else Inr rates) (\<lambda>rates'.
              rates_loop py_int py_float lines k (rates', line_idx + 1))))"

definition parse_rates ::
  "(string \<Rightarrow> int option) \<Rightarrow> (string \<Rightarrow> rat option) \<Rightarrow> string list \<Rightarrow> ComtradeConfig \<times> int
     \<Rightarrow> (ComtradeConfig \<times> int) result" where
  "parse_rates py_int py_float lines st =
     (case st of (config, line_idx) \<Rightarrow>
        and_then (parse_num_rates py_int lines line_idx) (\<lambda>(num_rates, line_idx1).
        and_then (rates_loop py_int py_float lines (nat (max num_rates 1))
                    (sampling_rates config, line_idx1)) (\<lambda>(rates, line_idx2).
        Inr (config\<lparr>sampling_rates := rates\<rparr>, line_idx2))))"

text \<open>The two time stamps, the data format and the time multiplier.\<close>

definition parse_start_timestamp ::
  "string list \<Rightarrow> ComtradeConfig \<times> int \<Rightarrow> (ComtradeConfig \<times> int) result" where
  "parse_start_timestamp lines st =
     (case st of (config, line_idx) \<Rightarrow>
        if line_idx < int (length lines)
        then and_then (py_index lines line_idx)
               (\<lambda>l. Inr (config\<lparr>start_timestamp := l\<rparr>, line_idx + 1))
        else Inr (config, line_idx))"

definition parse_trigger_timestamp ::
  "string list \<Rightarrow> ComtradeConfig \<times> int \<Rightarrow> (ComtradeConfig \<times> int) result" where
  "parse_trigger_timestamp lines st =
     (case st of (config, line_idx) \<Rightarrow>
        if line_idx < int (length lines)
        then and_then (py_index lines line_idx)
               (\<lambda>l. Inr (config\<lparr>trigger_timestamp := l\<rparr>, line_idx + 1))
        else Inr (config, line_idx))"

definition parse_data_format ::
  "string list \<Rightarrow> ComtradeConfig \<times> int \<Rightarrow> (ComtradeConfig \<times> int) result" where
  "parse_data_format lines st =
     (case st of (config, line_idx) \<Rightarrow>
        if line_idx < int (length lines)
        then and_then (py_index lines line_idx)
               (\<lambda>l. let fmt = strip (upper l)
                    in Inr (config\<lparr>data_format :=
                              (if fmt \<in> set [''ASCII'', ''BINARY'', ''BINARY32'', ''FLOAT32'']
                               then fmt else ''ASCII'')\<rparr>,
                            line_idx + 1))
        else Inr (config, line_idx))"

definition parse_time_multiplier ::
  "(string \<Rightarrow> rat option) \<Rightarrow> string list \<Rightarrow> ComtradeConfig \<times> int
     \<Rightarrow> (ComtradeConfig \<times> int) result" where
  "parse_time_multiplier py_float lines st =
     (case st of (config, line_idx) \<Rightarrow>
        if line_idx < int (length lines)
        then and_then (except_ValueError
                         (and_then (py_index lines line_idx) (float_of py_float)) (Inr 1))
               (\<lambda>m. Inr (config\<lparr>time_multiplier := m\<rparr>, line_idx))
        else Inr (config, line_idx))"

text \<open>
  \<^verbatim>\<open>ComtradeParser.parse_cfg\<close>. The file is \<open>None\<close> when the path does not exist, and
  else the list \<^verbatim>\<open>f.readlines()\<close> of its lines.
\<close>

definition parse_cfg ::
  "(string \<Rightarrow> int option) \<Rightarrow> (string \<Rightarrow> rat option) \<Rightarrow> string \<Rightarrow> string list option
     \<Rightarrow> ComtradeConfig result" where
  "parse_cfg py_int py_float cfg_path file =
     (case file of
        None \<Rightarrow> Inl FileNotFoundError
      | Some raw_lines \<Rightarrow>
          let config = new_ComtradeConfig cfg_path;
              lines = map strip raw_lines
          in if length lines < 2 then Inl ValueError
             else and_then (parse_line1 py_int lines (config, 0)) (\<lambda>st1.
                  and_then (parse_line2 py_int lines st1) (\<lambda>st2.
                  and_then (parse_channels py_int py_float lines st2) (\<lambda>st3.
                  and_then (parse_line_freq py_float lines st3) (\<lambda>st4.
                  and_then (parse_rates py_int py_float lines st4) (\<lambda>st5.
                  and_then (parse_start_timestamp lines st5) (\<lambda>st6.
                  and_then (parse_trigger_timestamp lines st6) (\<lambda>st7.
                  and_then (parse_data_format lines st7) (\<lambda>st8.
                  and_then (parse_time_multiplier py_float lines st8) (\<lambda>st9.
                  Inr (fst st9)))))))))))"

text \<open>
  \<^verbatim>\<open>ComtradeParser.parse_dat_ascii\<close>. \<open>py_range a b\<close> is \<^verbatim>\<open>range(a, b)\<close>;
  \<open>map_result\<close> is a loop that appends one value per element and stops at the first
  exception. The parser's \<^verbatim>\<open>self._config\<close> is \<open>None\<close> before a configuration has been
  parsed.
\<close>

definition py_range :: "int \<Rightarrow> int \<Rightarrow> int list" where
  "py_range a b = [a..b - 1]"

fun map_result :: "('a \<Rightarrow> 'b result) \<Rightarrow> 'a list \<Rightarrow> 'b list result" where
  "map_result f [] = Inr []"
| "map_result f (x # xs) =
     and_then (f x) (\<lambda>y. and_then (map_result f xs) (\<lambda>ys. Inr (y # ys)))"

definition analog_value :: "(string \<Rightarrow> rat option) \<Rightarrow> string list \<Rightarrow> int \<Rightarrow> rat result" where
  "analog_value py_float parts i =
     (if i < int (length parts)
      then except_ValueError (and_then (py_index parts i) (float_of py_float)) (Inr 0)
      else Inr 0)"

definition digital_value :: "(string \<Rightarrow> int option) \<Rightarrow> string list \<Rightarrow> int \<Rightarrow> int result" where
  "digital_value py_int parts i =
     (if i < int (length parts)
      then except_ValueError (and_then (py_index parts i) (int_of py_int)) (Inr 0)
      else Inr 0)"

type_synonym dat_row = "int \<times> int \<times> rat list \<times> int list"

text \<open>
  \<^verbatim>\<open>self._config.num_analog if self._config else 0\<close>, and the same for the digital count
  (a configuration object is always true).
\<close>

definition config_num_analog :: "ComtradeConfig option \<Rightarrow> int" where
  "config_num_analog config = (case config of Some c \<Rightarrow> num_analog c | None \<Rightarrow> 0)"

definition config_num_digital :: "ComtradeConfig option \<Rightarrow> int" where
  "config_num_digital config = (case config of Some c \<Rightarrow> num_digital c | None \<Rightarrow> 0)"

text \<open>One round of the loop over the lines: \<open>Inr None\<close> is \<^verbatim>\<open>continue\<close>.\<close>

definition parse_dat_line ::
  "(string \<Rightarrow> int option) \<Rightarrow> (string \<Rightarrow> rat option) \<Rightarrow> ComtradeConfig option \<Rightarrow> string
     \<Rightarrow> dat_row option result" where
  "parse_dat_line py_int py_float config raw_line =
     (let line = strip raw_line
      in if line = [] then Inr None
         else
           let parts = split_on CHR '','' line
           in if length parts < 2 then Inr None
              else
                and_then (except_ValueError
                            (and_then (and_then (py_index parts 0) (int_of py_int))
                               (\<lambda>sample_num.
                             and_then (and_then (py_index parts 1) (int_of py_int))
                               (\<lambda>timestamp. Inr (Some (sample_num, timestamp)))))
                            (Inr None))
                  (\<lambda>header.
                     case header of
                       None \<Rightarrow> Inr None
                     | Some (sample_num, timestamp) \<Rightarrow>
                         let num_a = config_num_analog config;
                             num_d = config_num_digital config
                         in and_then (map_result (analog_value py_float parts)
                                        (py_range 2 (2 + num_a))) (\<lambda>analog_vals.
                            and_then (map_result (digital_value py_int parts)
                                        (py_range (2 + num_a) (2 + num_a + num_d)))
                              (\<lambda>digital_vals.
                            Inr (Some (sample_num, timestamp, analog_vals, digital_vals))))))"

fun dat_loop ::
  "(string \<Rightarrow> dat_row option result) \<Rightarrow> string list \<Rightarrow> dat_row list result" where
  "dat_loop parse [] = Inr []"
| "dat_loop parse (l # ls) =
     and_then (parse l) (\<lambda>r.
     and_then (dat_loop parse ls) (\<lambda>rows.
     Inr (case r of None \<Rightarrow> rows | Some row \<Rightarrow> row # rows)))"

definition parse_dat_ascii ::
  "(string \<Rightarrow> int option) \<Rightarrow> (string \<Rightarrow> rat option) \<Rightarrow> ComtradeConfig option
     \<Rightarrow> string list option \<Rightarrow> dat_row list result" where
  "parse_dat_ascii py_int py_float config file =
     (case file of
        None \<Rightarrow> Inl FileNotFoundError
      | Some raw_lines \<Rightarrow> dat_loop (parse_dat_line py_int py_float config) raw_lines)"

text \<open>
  An instance of the two built-ins, for the concrete inputs below: an optional sign and
  ASCII decimal digits, surrounded by white space. (Python accepts more: underscores
  between digits, other decimal digits, and for \<^verbatim>\<open>float\<close> fractions, exponents and the
  special values.)
\<close>

definition digit_value :: "char \<Rightarrow> nat option" where
  "digit_value c = map_of (zip ''0123456789'' [0, 1, 2, 3, 4, 5, 6, 7, 8, 9]) c"

fun digits_value :: "nat \<Rightarrow> string \<Rightarrow> nat option" where
  "digits_value acc [] = Some acc"
| "digits_value acc (c # cs) =
     (case digit_value c of None \<Rightarrow> None | Some d \<Rightarrow> digits_value (10 * acc + d) cs)"

definition ascii_nat :: "string \<Rightarrow> nat option" where
  "ascii_nat s = (if s = [] then None else digits_value 0 s)"

definition ascii_int :: "string \<Rightarrow> int option" where
  "ascii_int s =
     (case strip s of
        [] \<Rightarrow> None
      | c # cs \<Rightarrow>
          if c = CHR ''-'' then map_option (\<lambda>n. - int n) (ascii_nat cs)
          else if c = CHR ''+'' then map_option int (ascii_nat cs)
          else map_option int (ascii_nat (c # cs)))"

definition ascii_float :: "string \<Rightarrow> rat option" where
  "ascii_float s = map_option of_int (ascii_int s)"

section \<open>core/alias_database.py: the backing file\<close>

text \<open>
  The value \<^verbatim>\<open>json.load\<close> returns: a JSON object is a dictionary with string keys, in
  the order of the file. The backing file of the store is absent, or is not UTF-8 text
  (reading it raises \<^verbatim>\<open>UnicodeDecodeError\<close>), or is text that is not JSON
  (\<^verbatim>\<open>json.load\<close> raises \<^verbatim>\<open>JSONDecodeError\<close>), or holds a JSON value.
\<close>

datatype json =
    JNull
  | JBool bool
  | JInt int
  | JFloat rat
  | JStr string
  | JList "json list"
  | JDict "(string \<times> json) list"

datatype backing_file = Missing | Not_UTF8 | Not_JSON | Content json

definition AliasEntry_fields :: "string list" where
  "AliasEntry_fields =
     [''relay_name'', ''standard_name'', ''relay_model'', ''signal_type'', ''function'',
      ''auto_detected'', ''validated'']"

text \<open>
  A dataclass does not check the types of its fields. The entries of the model are typed,
  so a keyword argument whose JSON value is not of the field's declared type is outside
  the model: \<open>None\<close>. An absent keyword gives the field's default.
\<close>

definition str_field :: "(string \<times> json) list \<Rightarrow> string \<Rightarrow> string \<Rightarrow> string option" where
  "str_field kwargs field default' =
     (case map_of kwargs field of
        None \<Rightarrow> Some default'
      | Some v \<Rightarrow> (case v of JStr s \<Rightarrow> Some s | _ \<Rightarrow> None))"

definition bool_field :: "(string \<times> json) list \<Rightarrow> string \<Rightarrow> bool \<Rightarrow> bool option" where
  "bool_field kwargs field default' =
     (case map_of kwargs field of
        None \<Rightarrow> Some default'
      | Some v \<Rightarrow> (case v of JBool b \<Rightarrow> Some b | _ \<Rightarrow> None))"

text \<open>
  \<^verbatim>\<open>AliasEntry(**data)\<close>: \<^verbatim>\<open>TypeError\<close> when \<open>data\<close> is not a mapping or has a key that
  is not a field of the class.
\<close>

definition new_AliasEntry :: "json \<Rightarrow> AliasEntry result option" where
  "new_AliasEntry data =
     (case data of
        JDict kwargs \<Rightarrow>
          if \<exists>k \<in> set (map fst kwargs). k \<notin> set AliasEntry_fields then Some (Inl TypeError)
          else
            (case (str_field kwargs ''relay_name'' [],
                   str_field kwargs ''standard_name'' [],
                   str_field kwargs ''relay_model'' [],
                   str_field kwargs ''signal_type'' ''analog'',
                   str_field kwargs ''function'' [],
                   bool_field kwargs ''auto_detected'' False,
                   bool_field kwargs ''validated'' False) of
               (Some rn, Some sn, Some rm, Some st, Some fn, Some ad, Some va) \<Rightarrow>
                 Some (Inr \<lparr>relay_name = rn, standard_name = sn, relay_model = rm,
                            signal_type = st, function_name = fn, auto_detected = ad,
                            validated = va\<rparr>)
             | _ \<Rightarrow> None)
      | _ \<Rightarrow> Some (Inl TypeError))"

text \<open>
  \<^verbatim>\<open>AliasDatabase._load\<close>, called by the constructor on an empty store. The loop stores
  each entry under the key the file gives it. \<^verbatim>\<open>raw.items()\<close> raises
  \<^verbatim>\<open>AttributeError\<close> when the JSON value is not an object. The handler catches
  \<^verbatim>\<open>JSONDecodeError\<close>, \<^verbatim>\<open>TypeError\<close> and \<^verbatim>\<open>KeyError\<close> and empties the store;
  \<^verbatim>\<open>UnicodeDecodeError\<close> is none of them and none of their subclasses.
\<close>

fun load_items :: "store \<Rightarrow> (string \<times> json) list \<Rightarrow> store result option" where
  "load_items entries [] = Some (Inr entries)"
| "load_items entries ((k, data) # items) =
     (case new_AliasEntry data of
        None \<Rightarrow> None
      | Some (Inl e) \<Rightarrow> Some (Inl e)
      | Some (Inr entry) \<Rightarrow> load_items (dict_set entries k entry) items)"

definition load_body :: "backing_file \<Rightarrow> store result option" where
  "load_body file =
     (case file of
        Missing \<Rightarrow> Some (Inr [])
      | Not_UTF8 \<Rightarrow> Some (Inl UnicodeDecodeError)
      | Not_JSON \<Rightarrow> Some (Inl JSONDecodeError)
      | Content raw \<Rightarrow>
          (case raw of
             JDict items \<Rightarrow> load_items [] items
           | _ \<Rightarrow> Some (Inl AttributeError)))"

definition load :: "backing_file \<Rightarrow> store result option" where
  "load file =
     (case load_body file of
        Some (Inl e) \<Rightarrow>
          if e \<in> set [JSONDecodeError, TypeError, KeyError] then Some (Inr []) else Some (Inl e)
      | r \<Rightarrow> r)"

text \<open>
  \<^verbatim>\<open>export_to_json\<close> and \<^verbatim>\<open>import_from_json\<close>. The value is what \<^verbatim>\<open>json.dump\<close>
  writes and \<^verbatim>\<open>json.load\<close> reads back: a dictionary of strings and booleans is
  written and read unchanged. An import that raises keeps the entries added before; it
  returns the store together with the count or the exception.
\<close>

definition entry_to_json :: "AliasEntry \<Rightarrow> json" where
  "entry_to_json entry =
     JDict [(''relay_name'', JStr (relay_name entry)),
            (''standard_name'', JStr (standard_name entry)),
            (''relay_model'', JStr (relay_model entry)),
            (''signal_type'', JStr (signal_type entry)),
            (''function'', JStr (function_name entry)),
            (''auto_detected'', JBool (auto_detected entry)),
            (''validated'', JBool (validated entry))]"

definition export_to_json :: "store \<Rightarrow> json" where
  "export_to_json entries = JDict (map (\<lambda>(k, entry). (k, entry_to_json entry)) entries)"

fun import_items ::
  "store \<Rightarrow> int \<Rightarrow> (string \<times> json) list \<Rightarrow> (store \<times> int result) option" where
  "import_items entries count [] = Some (entries, Inr count)"
| "import_items entries count ((k, data) # items) =
     (case new_AliasEntry data of
        None \<Rightarrow> None
      | Some (Inl e) \<Rightarrow> Some (entries, Inl e)
      | Some (Inr entry) \<Rightarrow>
          (case add entries entry of
             (is_new, entries') \<Rightarrow>
               import_items entries' (if is_new then count + 1 else count) items))"

definition import_from_json :: "store \<Rightarrow> json \<Rightarrow> (store \<times> int result) option" where
  "import_from_json entries raw =
     (case raw of
        JDict items \<Rightarrow> import_items entries 0 items
      | _ \<Rightarrow> Some (entries, Inl AttributeError))"

section \<open>core/xrio_parser.py: the disturbance report\<close>

text \<open>
  \<^verbatim>\<open>DisturbanceReportSignal\<close>, its fields with the prefix \<open>dr_\<close>. The parameter map of
  a block maps the text of a parameter's \<^verbatim>\<open>Name\<close> to the dictionary of its resolved
  value and its description.
\<close>

record DisturbanceReportSignal =
  dr_channel :: int
  dr_name :: string
  dr_description :: string
  dr_trig_operation :: string
  dr_trig_level :: string
  dr_indication_mask :: string
  dr_set_led :: string
  dr_block :: string

record param_data =
  val :: string
  desc :: string

type_synonym params_map = "string \<Rightarrow> param_data option"

text \<open>The format \<^verbatim>\<open>f"{i:02d}"\<close> of a number that is not negative.\<close>

definition pad2 :: "nat \<Rightarrow> string" where
  "pad2 i = (if i < 10 then CHR ''0'' # str_nat i else str_nat i)"

text \<open>
  A correlated field of a channel: \<^verbatim>\<open>params_map.get(field + suffix_pad, {'val': '',
  'desc': ''})\<close>, replaced by the entry under the plain suffix when its value is empty and
  that entry exists.
\<close>

definition correlated :: "params_map \<Rightarrow> string \<Rightarrow> string \<Rightarrow> string \<Rightarrow> param_data" where
  "correlated params field suffix_pad suffix_idx =
     (let d = (case params (field @ suffix_pad) of
                 Some x \<Rightarrow> x
               | None \<Rightarrow> \<lparr>val = [], desc = []\<rparr>)
      in if val d = []
         then (case params (field @ suffix_idx) of Some x \<Rightarrow> x | None \<Rightarrow> d)
         else d)"

text \<open>One round of the loop \<^verbatim>\<open>for i in range(1, 97)\<close>: \<open>None\<close> is \<^verbatim>\<open>continue\<close>.\<close>

definition channel_signal ::
  "params_map \<Rightarrow> string \<Rightarrow> nat \<Rightarrow> DisturbanceReportSignal option" where
  "channel_signal params block_name i =
     (let suffix_idx = str_nat i;
          suffix_pad = pad2 i;
          name_key = (if params (''NAME'' @ suffix_idx) = None then ''NAME'' @ suffix_pad
                      else ''NAME'' @ suffix_idx)
      in case params name_key of
           None \<Rightarrow> None
         | Some name_data \<Rightarrow>
             Some \<lparr>dr_channel = int i,
                   dr_name = val name_data,
                   dr_description = desc name_data,
                   dr_trig_operation = val (correlated params ''TrigDR'' suffix_pad suffix_idx),
                   dr_trig_level = val (correlated params ''TrigLevel'' suffix_pad suffix_idx),
                   dr_indication_mask =
                     val (correlated params ''IndicationMa'' suffix_pad suffix_idx),
                   dr_set_led = val (correlated params ''SetLED'' suffix_pad suffix_idx),
                   dr_block = block_name\<rparr>)"

definition block_signals :: "params_map \<Rightarrow> string \<Rightarrow> DisturbanceReportSignal list" where
  "block_signals params block_name =
     List.map_filter (channel_signal params block_name) [1..<97]"

section \<open>Concrete inputs\<close>

text \<open>Two entries of one relay model whose technical names differ only in case.\<close>

definition entry_ia_lower :: AliasEntry where
  "entry_ia_lower =
     \<lparr>relay_name = ''ia'', standard_name = ''X'', relay_model = ''M'',
      signal_type = ''analog'', function_name = [], auto_detected = False, validated = True\<rparr>"

definition entry_ia_upper :: AliasEntry where
  "entry_ia_upper =
     \<lparr>relay_name = ''IA'', standard_name = ''Y'', relay_model = ''M'',
      signal_type = ''analog'', function_name = [], auto_detected = False, validated = True\<rparr>"

text \<open>A loaded configuration with one analog channel named \<^verbatim>\<open>IA\<close>.\<close>

definition config_one_analog :: ComtradeConfig where
  "config_one_analog =
     (new_ComtradeConfig ''rec.cfg'')
       \<lparr>num_analog := 1,
        analog_channels := [(new_ComtradeChannel ANALOG)\<lparr>ch_index := 1, ch_name := ''IA''\<rparr>]\<rparr>"

text \<open>
  Configurations as \<^verbatim>\<open>parse_cfg\<close> leaves them: one with two analog channels and one
  digital channel declared, and the one parsed from the two lines \<^verbatim>\<open>S,D,1999\<close> and
  \<^verbatim>\<open>2,-5A,1D\<close>, whose analog count is negative.
\<close>

definition config_2A_1D :: ComtradeConfig where
  "config_2A_1D = (new_ComtradeConfig ''rec.cfg'')\<lparr>num_analog := 2, num_digital := 1\<rparr>"

definition config_negative_count :: ComtradeConfig where
  "config_negative_count =
     (new_ComtradeConfig ''rec.cfg'')
       \<lparr>station_name := ''S'', rec_dev_id := ''D'', num_analog := - 5, num_digital := 1\<rparr>"

text \<open>
  The parameter map of a disturbance-report block: channel 1 named under the plain
  suffix, channel 2 under the zero-padded suffix with its trigger under the plain one,
  channel 96, and a name beyond the last channel.
\<close>

definition sample_params :: params_map where
  "sample_params =
     map_of [(''NAME1'', \<lparr>val = ''TRIP L1'', desc = ''Input 1''\<rparr>),
             (''NAME02'', \<lparr>val = ''TRIP L2'', desc = []\<rparr>),
             (''TrigDR02'', \<lparr>val = [], desc = []\<rparr>),
             (''TrigDR2'', \<lparr>val = ''On'', desc = []\<rparr>),
             (''NAME96'', \<lparr>val = ''START'', desc = []\<rparr>),
             (''NAME97'', \<lparr>val = ''SPARE'', desc = []\<rparr>)]"

text \<open>
  An alias for the technical name \<^verbatim>\<open>IA_MAG\<close>, and a loaded configuration whose analog
  channel \<^verbatim>\<open>IA MAG\<close> matches that name approximately.
\<close>

definition entry_ia_mag :: AliasEntry where
  "entry_ia_mag =
     \<lparr>relay_name = ''IA_MAG'', standard_name = ''IB'', relay_model = ''M'',
      signal_type = ''analog'', function_name = [], auto_detected = False, validated = True\<rparr>"

definition config_ia_mag :: ComtradeConfig where
  "config_ia_mag =
     (new_ComtradeConfig ''rec.cfg'')
       \<lparr>num_analog := 1,
        analog_channels := [(new_ComtradeChannel ANALOG)\<lparr>ch_index := 1, ch_name := ''IA MAG''\<rparr>]\<rparr>"

section \<open>Properties of the alias store\<close>

lemma map_of_dict_set: "map_of (dict_set d k v) k = Some v"
  by (induction d k v rule: dict_set.induct) auto

lemma dict_set_other: "k' \<noteq> k \<Longrightarrow> map_of (dict_set d k v) k' = map_of d k'"
  by (induction d k v rule: dict_set.induct) auto

lemma dict_set_keys: "fst ` set (dict_set d k v) = insert k (fst ` set d)"
  by (induction d k v rule: dict_set.induct) auto

lemma dict_set_is_dict: "is_dict d \<Longrightarrow> is_dict (dict_set d k v)"
proof (induction d k v rule: dict_set.induct)
  case (1 k v)
  show ?case by (simp add: is_dict_def)
next
  case (2 k' v' kvs k v)
  then show ?case
    using dict_set_keys [of kvs k v] by (auto simp: is_dict_def)
qed




section \<open>Properties of name normalization\<close>







section \<open>Properties of the validation cascade\<close>

lemma normalize_name_XYZ: "normalize_name ''XYZ'' = ''XYZ''"
  by code_simp

lemma extract_phase_XYZ: "extract_phase ''XYZ'' = []"
  by code_simp

lemma normalize_analog_catalog:
  "map normalize_name STANDARD_ANALOG_SIGNALS = STANDARD_ANALOG_SIGNALS"
  by code_simp

lemma XYZ_no_containment:
  "\<forall>std \<in> set STANDARD_ANALOG_SIGNALS. \<not> str_in std ''XYZ'' \<and> \<not> str_in ''XYZ'' std"
  by code_simp

lemma heuristic_match_XYZ: "heuristic_match ''XYZ'' ''analog'' = None"
proof -
  have "\<forall>x \<in> set (map normalize_name STANDARD_ANALOG_SIGNALS).
          \<not> str_in x ''XYZ'' \<and> \<not> str_in ''XYZ'' x"
    unfolding normalize_analog_catalog by (rule XYZ_no_containment)
  then have "\<forall>std \<in> set STANDARD_ANALOG_SIGNALS.
          \<not> str_in (normalize_name std) ''XYZ'' \<and> \<not> str_in ''XYZ'' (normalize_name std)"
    by simp
  then show ?thesis
    unfolding heuristic_match_def Let_def find_None_iff
    by (simp add: normalize_name_XYZ extract_phase_XYZ)
qed

text \<open>
  C2. The five tiers are tried in order and the first that matches gives the result.
  When the upper-cased signal name is among the upper-cased catalog names, the result has
  tier \<^verbatim>\<open>exact\<close>, confidence 1.0 and the signal's own name as standard name, whatever
  the alias store holds and whatever configuration is supplied. Otherwise a non-empty
  alias name gives tier \<^verbatim>\<open>alias\<close> with confidence 0.95, whatever the configuration;
  otherwise the first channel of the supplied configuration that matches approximately
  gives \<^verbatim>\<open>fuzzy\<close> with confidence 0.7; otherwise a heuristic match gives \<^verbatim>\<open>fuzzy\<close>
  with confidence 0.5; otherwise the result is \<^verbatim>\<open>new\<close> with confidence 0.0 and no
  standard name.
\<close>

theorem validation_cascade_order:
  "(upper xn \<in> set (map upper sn) \<longrightarrow>
      fst (validate_signal sn entries xn model st cfg) =
        \<lparr>xrio_name = xn, result_standard_name = xn, match_type = ''exact'', confidence = 1\<rparr>)
   \<and> (upper xn \<notin> set (map upper sn)
        \<and> find_standard_for entries model xn = Some a \<and> a \<noteq> [] \<longrightarrow>
      fst (validate_signal sn entries xn model st cfg) =
        \<lparr>xrio_name = xn, result_standard_name = a, match_type = ''alias'',
         confidence = 95 / 100\<rparr>)
   \<and> (upper xn \<notin> set (map upper sn)
        \<and> find_standard_for entries model xn \<in> {None, Some []}
        \<and> cfg = Some config
        \<and> find (\<lambda>ch. fuzzy_match xn (ch_name ch))
              (if st = ''analog'' then analog_channels config else digital_channels config) =
            Some ch \<longrightarrow>
      fst (validate_signal sn entries xn model st cfg) =
        \<lparr>xrio_name = xn, result_standard_name = ch_name ch, match_type = ''fuzzy'',
         confidence = 7 / 10\<rparr>)
   \<and> (upper xn \<notin> set (map upper sn)
        \<and> find_standard_for entries model xn \<in> {None, Some []}
        \<and> (cfg = None
             \<or> cfg = Some config
               \<and> find (\<lambda>ch. fuzzy_match xn (ch_name ch))
                     (if st = ''analog'' then analog_channels config
                      else digital_channels config) = None)
        \<and> heuristic_match xn st = Some h \<and> h \<noteq> [] \<longrightarrow>
      fst (validate_signal sn entries xn model st cfg) =
        \<lparr>xrio_name = xn, result_standard_name = h, match_type = ''fuzzy'',
         confidence = 5 / 10\<rparr>)
   \<and> (upper xn \<notin> set (map upper sn)
        \<and> find_standard_for entries model xn \<in> {None, Some []}
        \<and> (cfg = None
             \<or> cfg = Some config
               \<and> find (\<lambda>ch. fuzzy_match xn (ch_name ch))
                     (if st = ''analog'' then analog_channels config
                      else digital_channels config) = None)
        \<and> heuristic_match xn st \<in> {None, Some []} \<longrightarrow>
      fst (validate_signal sn entries xn model st cfg) =
        \<lparr>xrio_name = xn, result_standard_name = [], match_type = ''new'', confidence = 0\<rparr>)"
proof (intro conjI impI)
  assume "upper xn \<in> set (map upper sn)"
  then show "fst (validate_signal sn entries xn model st cfg) =
        \<lparr>xrio_name = xn, result_standard_name = xn, match_type = ''exact'', confidence = 1\<rparr>"
    by (simp add: validate_signal_def new_ValidationResult_def)
next
  assume "upper xn \<notin> set (map upper sn)
        \<and> find_standard_for entries model xn = Some a \<and> a \<noteq> []"
  then show "fst (validate_signal sn entries xn model st cfg) =
        \<lparr>xrio_name = xn, result_standard_name = a, match_type = ''alias'',
         confidence = 95 / 100\<rparr>"
    by (cases a) (simp_all add: validate_signal_def new_ValidationResult_def)
next
  assume "upper xn \<notin> set (map upper sn)
        \<and> find_standard_for entries model xn \<in> {None, Some []}
        \<and> cfg = Some config
        \<and> find (\<lambda>ch. fuzzy_match xn (ch_name ch))
              (if st = ''analog'' then analog_channels config else digital_channels config) =
            Some ch"
  then show "fst (validate_signal sn entries xn model st cfg) =
        \<lparr>xrio_name = xn, result_standard_name = ch_name ch, match_type = ''fuzzy'',
         confidence = 7 / 10\<rparr>"
    by (auto simp: validate_signal_def new_ValidationResult_def)
next
  assume "upper xn \<notin> set (map upper sn)
        \<and> find_standard_for entries model xn \<in> {None, Some []}
        \<and> (cfg = None
             \<or> cfg = Some config
               \<and> find (\<lambda>ch. fuzzy_match xn (ch_name ch))
                     (if st = ''analog'' then analog_channels config
                      else digital_channels config) = None)
        \<and> heuristic_match xn st = Some h \<and> h \<noteq> []"
  then show "fst (validate_signal sn entries xn model st cfg) =
        \<lparr>xrio_name = xn, result_standard_name = h, match_type = ''fuzzy'',
         confidence = 5 / 10\<rparr>"
    by (cases h) (auto simp: validate_signal_def new_ValidationResult_def)
next
  assume "upper xn \<notin> set (map upper sn)
        \<and> find_standard_for entries model xn \<in> {None, Some []}
        \<and> (cfg = None
             \<or> cfg = Some config
               \<and> find (\<lambda>ch. fuzzy_match xn (ch_name ch))
                     (if st = ''analog'' then analog_channels config
                      else digital_channels config) = None)
        \<and> heuristic_match xn st \<in> {None, Some []}"
  then show "fst (validate_signal sn entries xn model st cfg) =
        \<lparr>xrio_name = xn, result_standard_name = [], match_type = ''new'', confidence = 0\<rparr>"
    by (auto simp: validate_signal_def new_ValidationResult_def)
qed

lemma heuristic_match_IA_MAG: "heuristic_match ''IA_MAG'' ''analog'' = Some ''IA''"
  by code_simp

lemma IA_MAG_not_in_catalog:
  "upper ''IA_MAG'' \<notin> set (map upper get_all_standard_signal_names)"
  by code_simp

text \<open>
  The instances. Tier 1: \<^verbatim>\<open>ia\<close>, with an alias for it in the store and a matching
  channel in the configuration. Tier 2: \<^verbatim>\<open>IA_MAG\<close> with an alias in the store, a
  matching channel in the configuration and a heuristic match. Tier 3: the same without
  the alias. Tier 4: the same without the configuration. Tier 5: \<^verbatim>\<open>XYZ\<close>.
\<close>

theorem validation_cascade_order_witness:
  "upper ''ia'' \<in> set (map upper get_all_standard_signal_names)
   \<and> fst (validate_signal get_all_standard_signal_names [(''M::ia'', entry_ia_lower)]
          ''ia'' ''M'' ''analog'' (Some config_one_analog)) =
       \<lparr>xrio_name = ''ia'', result_standard_name = ''ia'', match_type = ''exact'',
        confidence = 1\<rparr>
   \<and> upper ''IA_MAG'' \<notin> set (map upper get_all_standard_signal_names)
   \<and> find_standard_for [(''M::IA_MAG'', entry_ia_mag)] ''M'' ''IA_MAG'' = Some ''IB''
   \<and> fst (validate_signal get_all_standard_signal_names [(''M::IA_MAG'', entry_ia_mag)]
          ''IA_MAG'' ''M'' ''analog'' (Some config_ia_mag)) =
       \<lparr>xrio_name = ''IA_MAG'', result_standard_name = ''IB'', match_type = ''alias'',
        confidence = 95 / 100\<rparr>
   \<and> find_standard_for [] ''M'' ''IA_MAG'' = None
   \<and> find (\<lambda>ch. fuzzy_match ''IA_MAG'' (ch_name ch)) (analog_channels config_ia_mag) =
       Some ((new_ComtradeChannel ANALOG)\<lparr>ch_index := 1, ch_name := ''IA MAG''\<rparr>)
   \<and> fst (validate_signal get_all_standard_signal_names [] ''IA_MAG'' ''M'' ''analog''
          (Some config_ia_mag)) =
       \<lparr>xrio_name = ''IA_MAG'', result_standard_name = ''IA MAG'', match_type = ''fuzzy'',
        confidence = 7 / 10\<rparr>
   \<and> heuristic_match ''IA_MAG'' ''analog'' = Some ''IA''
   \<and> fst (validate_signal get_all_standard_signal_names [] ''IA_MAG'' ''M'' ''analog'' None) =
       \<lparr>xrio_name = ''IA_MAG'', result_standard_name = ''IA'', match_type = ''fuzzy'',
        confidence = 5 / 10\<rparr>
   \<and> upper ''XYZ'' \<notin> set (map upper get_all_standard_signal_names)
   \<and> heuristic_match ''XYZ'' ''analog'' = None
   \<and> fst (validate_signal get_all_standard_signal_names [] ''XYZ'' ''M'' ''analog'' None) =
       \<lparr>xrio_name = ''XYZ'', result_standard_name = [], match_type = ''new'',
        confidence = 0\<rparr>"
proof -
  let ?sn = get_all_standard_signal_names
  let ?ch = "(new_ComtradeChannel ANALOG)\<lparr>ch_index := 1, ch_name := ''IA MAG''\<rparr>"
  have t1: "upper ''ia'' \<in> set (map upper ?sn)"
    by code_simp
  have n2: "upper ''IA_MAG'' \<notin> set (map upper ?sn)"
    by (rule IA_MAG_not_in_catalog)
  have a2: "find_standard_for [(''M::IA_MAG'', entry_ia_mag)] ''M'' ''IA_MAG'' = Some ''IB''"
    by (simp add: find_standard_for_def get_def entry_ia_mag_def)
  have a3: "find_standard_for [] ''M'' nm = None" for nm
    by (simp add: find_standard_for_def get_def find_by_relay_name_def)
  have c3: "find (\<lambda>ch. fuzzy_match ''IA_MAG'' (ch_name ch)) (analog_channels config_ia_mag) =
              Some ?ch"
    by code_simp
  have h4: "heuristic_match ''IA_MAG'' ''analog'' = Some ''IA''"
    by (rule heuristic_match_IA_MAG)
  have n5: "upper ''XYZ'' \<notin> set (map upper ?sn)"
    by code_simp
  have h5: "heuristic_match ''XYZ'' ''analog'' = None"
    by (rule heuristic_match_XYZ)
  have r1: "fst (validate_signal ?sn [(''M::ia'', entry_ia_lower)]
          ''ia'' ''M'' ''analog'' (Some config_one_analog)) =
       \<lparr>xrio_name = ''ia'', result_standard_name = ''ia'', match_type = ''exact'',
        confidence = 1\<rparr>"
    using t1 validation_cascade_order [where xn = "''ia''" and sn = ?sn
        and entries = "[(''M::ia'', entry_ia_lower)]" and model = "''M''" and st = "''analog''"
        and cfg = "Some config_one_analog"]
    by blast
  have r2: "fst (validate_signal ?sn [(''M::IA_MAG'', entry_ia_mag)]
          ''IA_MAG'' ''M'' ''analog'' (Some config_ia_mag)) =
       \<lparr>xrio_name = ''IA_MAG'', result_standard_name = ''IB'', match_type = ''alias'',
        confidence = 95 / 100\<rparr>"
    using n2 a2 validation_cascade_order [where xn = "''IA_MAG''" and sn = ?sn
        and entries = "[(''M::IA_MAG'', entry_ia_mag)]" and model = "''M''"
        and st = "''analog''" and cfg = "Some config_ia_mag" and a = "''IB''"]
    by simp
  have r3: "fst (validate_signal ?sn [] ''IA_MAG'' ''M'' ''analog'' (Some config_ia_mag)) =
       \<lparr>xrio_name = ''IA_MAG'', result_standard_name = ''IA MAG'', match_type = ''fuzzy'',
        confidence = 7 / 10\<rparr>"
    using n2 a3 [of "''IA_MAG''"] c3 validation_cascade_order [where xn = "''IA_MAG''"
        and sn = ?sn and entries = "[]" and model = "''M''" and st = "''analog''"
        and cfg = "Some config_ia_mag" and config = config_ia_mag and ch = ?ch]
    by simp
  have r4: "fst (validate_signal ?sn [] ''IA_MAG'' ''M'' ''analog'' None) =
       \<lparr>xrio_name = ''IA_MAG'', result_standard_name = ''IA'', match_type = ''fuzzy'',
        confidence = 5 / 10\<rparr>"
    using n2 a3 [of "''IA_MAG''"] h4 validation_cascade_order [where xn = "''IA_MAG''"
        and sn = ?sn and entries = "[]" and model = "''M''" and st = "''analog''"
        and cfg = None and h = "''IA''"]
    by simp
  have r5: "fst (validate_signal ?sn [] ''XYZ'' ''M'' ''analog'' None) =
       \<lparr>xrio_name = ''XYZ'', result_standard_name = [], match_type = ''new'',
        confidence = 0\<rparr>"
    using n5 a3 [of "''XYZ''"] h5 validation_cascade_order [where xn = "''XYZ''"
        and sn = ?sn and entries = "[]" and model = "''M''" and st = "''analog''"
        and cfg = None]
    by simp
  show ?thesis
    using t1 n2 a2 a3 [of "''IA_MAG''"] c3 h4 n5 h5 r1 r2 r3 r4 r5 by blast
qed

text \<open>
  C3 (as amended). After a tier-1 resolution the store holds, under the key of the relay
  model and the signal name, an entry that maps the name to itself, with the auto-detected
  flag set and the validated flag cleared (\<^verbatim>\<open>validated = not auto\<close>); an entry that was
  there under that key is overwritten.
\<close>

theorem exact_match_records_alias:
  assumes "upper xn \<in> set (map upper standard_names)"
  shows "get (snd (validate_signal standard_names entries xn model st cfg)) model xn =
           Some \<lparr>relay_name = xn, standard_name = xn, relay_model = model, signal_type = st,
                 function_name = function_value (classify_signal_function xn),
                 auto_detected = True, validated = False\<rparr>"
  using assms
  by (simp add: validate_signal_def auto_add_alias_def add_def get_def key_def
      map_of_dict_set Let_def)

theorem exact_match_records_alias_witness:
  "upper ''ia'' \<in> set (map upper get_all_standard_signal_names)
   \<and> get (snd (validate_signal get_all_standard_signal_names
        [(''M::ia'', entry_ia_lower)] ''ia'' ''M'' ''analog'' None)) ''M'' ''ia'' =
       Some \<lparr>relay_name = ''ia'', standard_name = ''ia'', relay_model = ''M'',
             signal_type = ''analog'',
             function_name = function_value (classify_signal_function ''ia''),
             auto_detected = True, validated = False\<rparr>"
proof -
  have h: "upper ''ia'' \<in> set (map upper get_all_standard_signal_names)"
    by code_simp
  show ?thesis
    using h exact_match_records_alias [OF h] by blast
qed

text \<open>
  C3 as stated fails: validating \<^verbatim>\<open>IA\<close> (a catalog name) on an empty store leaves one
  entry, under \<^verbatim>\<open>M::IA\<close>, whose auto-detected flag is set and whose validated flag is
  not.
\<close>

theorem exact_match_records_alias_counterexample:
  "map (\<lambda>(k, e). (k, auto_detected e, validated e))
     (snd (validate_signal get_all_standard_signal_names [] ''IA'' ''M'' ''analog'' None)) =
   [(''M::IA'', True, False)]"
  by code_simp

lemma validate_signal_store_changed:
  "snd (validate_signal sn entries xn model st cfg) \<noteq> entries \<Longrightarrow>
     (match_type (fst (validate_signal sn entries xn model st cfg)) = ''exact''
        \<and> confidence (fst (validate_signal sn entries xn model st cfg)) = 1)
   \<or> (match_type (fst (validate_signal sn entries xn model st cfg)) = ''fuzzy''
        \<and> confidence (fst (validate_signal sn entries xn model st cfg)) = 7 / 10)"
  unfolding validate_signal_def Let_def
  by (simp split: if_splits option.splits list.splits)

text \<open>
  C4. Tier 4 is the only tier that gives confidence 0.5 and tier 5 the only one that gives
  the match type \<^verbatim>\<open>new\<close>. A validation with such a result returns the alias store it was
  given. In particular, a name that is not in the catalog and that the heuristic does not
  match, validated on an empty store with no configuration, gets tier \<^verbatim>\<open>new\<close>,
  confidence 0.0 and an empty standard name, and the store stays empty.
\<close>

theorem tier4_tier5_keep_store:
  "(confidence (fst (validate_signal sn entries xn model st cfg)) = 5 / 10
     \<or> match_type (fst (validate_signal sn entries xn model st cfg)) = ''new''
       \<longrightarrow> snd (validate_signal sn entries xn model st cfg) = entries)
   \<and> (upper xn \<notin> set (map upper sn) \<and> heuristic_match xn st = None
       \<longrightarrow> validate_signal sn [] xn model st None =
            (\<lparr>xrio_name = xn, result_standard_name = [], match_type = ''new'',
              confidence = 0\<rparr>, []))"
proof (intro conjI impI)
  assume h: "confidence (fst (validate_signal sn entries xn model st cfg)) = 5 / 10
     \<or> match_type (fst (validate_signal sn entries xn model st cfg)) = ''new''"
  show "snd (validate_signal sn entries xn model st cfg) = entries"
  proof (rule ccontr)
    assume "snd (validate_signal sn entries xn model st cfg) \<noteq> entries"
    from validate_signal_store_changed [OF this] h show False by auto
  qed
next
  assume "upper xn \<notin> set (map upper sn) \<and> heuristic_match xn st = None"
  then show "validate_signal sn [] xn model st None =
            (\<lparr>xrio_name = xn, result_standard_name = [], match_type = ''new'',
              confidence = 0\<rparr>, [])"
    by (simp add: validate_signal_def new_ValidationResult_def find_standard_for_def
        get_def find_by_relay_name_def)
qed

text \<open>
  The instances: \<^verbatim>\<open>IA_MAG\<close> resolves at tier 4 against a store with one entry, which
  stays as it is; \<^verbatim>\<open>XYZ\<close> is unrecognized and resolves at tier 5.
\<close>

theorem tier4_tier5_keep_store_witness:
  "confidence (fst (validate_signal get_all_standard_signal_names
      [(''M::ia'', entry_ia_lower)] ''IA_MAG'' ''M'' ''analog'' None)) = 5 / 10
   \<and> snd (validate_signal get_all_standard_signal_names
      [(''M::ia'', entry_ia_lower)] ''IA_MAG'' ''M'' ''analog'' None) = [(''M::ia'', entry_ia_lower)]
   \<and> upper ''XYZ'' \<notin> set (map upper get_all_standard_signal_names)
   \<and> heuristic_match ''XYZ'' ''analog'' = None
   \<and> validate_signal get_all_standard_signal_names [] ''XYZ'' ''M'' ''analog'' None =
       (\<lparr>xrio_name = ''XYZ'', result_standard_name = [], match_type = ''new'',
         confidence = 0\<rparr>, [])"
proof -
  have c: "confidence (fst (validate_signal get_all_standard_signal_names
      [(''M::ia'', entry_ia_lower)] ''IA_MAG'' ''M'' ''analog'' None)) = 5 / 10"
    by code_simp
  have u: "upper ''XYZ'' \<notin> set (map upper get_all_standard_signal_names)"
    by code_simp
  have m: "heuristic_match ''XYZ'' ''analog'' = None"
    by (rule heuristic_match_XYZ)
  show ?thesis
    using c u m
      tier4_tier5_keep_store [of get_all_standard_signal_names "[(''M::ia'', entry_ia_lower)]"
        "''IA_MAG''" "''M''" "''analog''" None]
      tier4_tier5_keep_store [of get_all_standard_signal_names "[]" "''XYZ''" "''M''"
        "''analog''" None]
    by blast
qed

section \<open>Properties of the COMTRADE parser\<close>

lemma and_then_Inr [simp]: "and_then (Inr x) f = f x"
  by (simp add: and_then_def)

lemma and_then_Inl [simp]: "and_then (Inl e) f = Inl e"
  by (simp add: and_then_def)

lemma returns_and_then:
  "\<not> isl r \<Longrightarrow> (\<And>x. \<not> isl (f x)) \<Longrightarrow> \<not> isl (and_then r f)"
  by (cases r) simp_all

lemma returns_except:
  "(\<And>e. body = Inl e \<Longrightarrow> e = ValueError) \<Longrightarrow> \<not> isl handler
     \<Longrightarrow> \<not> isl (except_ValueError body handler)"
  by (cases body) (auto simp: except_ValueError_def is_ValueError_def)

lemma py_index_in_range:
  "0 \<le> i \<Longrightarrow> i < int (length xs) \<Longrightarrow> py_index xs i = Inr (xs ! nat i)"
  by (simp add: py_index_def)

lemma int_of_raises: "int_of py_int s = Inl e \<Longrightarrow> e = ValueError"
  by (auto simp: int_of_def split: option.splits)

lemma float_of_raises: "float_of py_float s = Inl e \<Longrightarrow> e = ValueError"
  by (auto simp: float_of_def split: option.splits)

lemma index_int_raises:
  "0 \<le> i \<Longrightarrow> i < int (length xs) \<Longrightarrow>
     and_then (py_index xs i) (int_of py_int) = Inl e \<Longrightarrow> e = ValueError"
  by (simp add: py_index_in_range int_of_raises)

lemma index_float_raises:
  "0 \<le> i \<Longrightarrow> i < int (length xs) \<Longrightarrow>
     and_then (py_index xs i) (float_of py_float) = Inl e \<Longrightarrow> e = ValueError"
  by (simp add: py_index_in_range float_of_raises)

lemma guarded_int_returns:
  "0 \<le> i \<Longrightarrow> i < int (length xs) \<Longrightarrow>
     \<not> isl (except_ValueError (and_then (py_index xs i) (int_of py_int)) (Inr d))"
  by (rule returns_except) (auto dest: index_int_raises)

lemma guarded_float_returns:
  "0 \<le> i \<Longrightarrow> i < int (length xs) \<Longrightarrow>
     \<not> isl (except_ValueError (and_then (py_index xs i) (float_of py_float)) (Inr d))"
  by (rule returns_except) (auto dest: index_float_raises)

lemma except_Inr [simp]: "except_ValueError (Inr x) h = Inr x"
  by (simp add: except_ValueError_def)

lemma except_int_returns [simp]: "\<not> isl (except_ValueError (int_of py_int s) (Inr d))"
  by (rule returns_except) (auto dest: int_of_raises)

lemma except_float_returns [simp]: "\<not> isl (except_ValueError (float_of py_float s) (Inr d))"
  by (rule returns_except) (auto dest: float_of_raises)

lemma split_on_not_Nil: "split_on d s \<noteq> []"
  by (induction s) (auto split: list.splits)

lemma split_cfg_line_not_Nil: "split_cfg_line l \<noteq> []"
  by (simp add: split_cfg_line_def split_on_not_Nil)

lemma float_field_returns: "\<not> isl (float_field py_float parts idx d cur)"
  unfolding float_field_def by (simp add: guarded_float_returns)

lemma parse_analog_channel_returns: "\<not> isl (parse_analog_channel py_int py_float line d)"
  unfolding parse_analog_channel_def Let_def
  by (intro returns_and_then float_field_returns)
     (simp_all add: guarded_int_returns py_index_in_range)

lemma parse_digital_channel_returns: "\<not> isl (parse_digital_channel py_int line d)"
  unfolding parse_digital_channel_def Let_def
  by (intro returns_and_then)
     (simp_all add: guarded_int_returns py_index_in_range)


lemma channel_loop_returns:
  assumes "\<And>l d. \<not> isl (parse l d)" and "0 \<le> idx"
  shows "\<exists>chs' idx'. channel_loop parse lines k i (chs, idx) = Inr (chs', idx') \<and> 0 \<le> idx'"
  using assms(2)
proof (induction k arbitrary: i chs idx)
  case 0
  then show ?case by simp
next
  case (Suc k)
  show ?case
  proof (cases "idx \<ge> int (length lines)")
    case True
    with Suc.prems show ?thesis by simp
  next
    case False
    obtain ch where ch: "parse (lines ! nat idx) (i + 1) = Inr ch"
      using assms(1) [of "lines ! nat idx" "i + 1"] by (cases "parse (lines ! nat idx) (i + 1)") auto
    have "0 \<le> idx + 1" using Suc.prems by simp
    from Suc.IH [OF this] obtain chs' idx' where
      "channel_loop parse lines k (i + 1) (chs @ [ch], idx + 1) = Inr (chs', idx') \<and> 0 \<le> idx'"
      by blast
    with False Suc.prems ch show ?thesis
      by (simp add: py_index_in_range)
  qed
qed

lemma and_then_returns_with:
  "\<not> isl r \<Longrightarrow> (\<And>x. \<exists>y. f x = Inr y \<and> P y) \<Longrightarrow> \<exists>y. and_then r f = Inr y \<and> P y"
  by (cases r) simp_all

lemma parse_line1_returns:
  assumes "0 \<le> idx" and "idx < int (length lines)"
  shows "\<exists>st'. parse_line1 py_int lines (config, idx) = Inr st' \<and> snd st' = idx + 1"
  unfolding parse_line1_def Let_def prod.case
  by (intro and_then_returns_with) (use assms in \<open>simp_all add: py_index_in_range\<close>)

lemma parse_line2_returns:
  assumes "0 \<le> idx" and "idx < int (length lines)"
  shows "\<exists>st'. parse_line2 py_int lines (config, idx) = Inr st' \<and> snd st' = idx + 1"
  using assms
  by (simp add: parse_line2_def py_index_in_range Let_def split_cfg_line_not_Nil Suc_le_eq
      split: prod.splits)

lemma if_returns_with:
  "(c \<Longrightarrow> \<exists>y. a = Inr y \<and> P y) \<Longrightarrow> (\<not> c \<Longrightarrow> \<exists>y. b = Inr y \<and> P y)
     \<Longrightarrow> \<exists>y. (if c then a else b) = Inr y \<and> P y"
  by simp

lemma Inr_returns_with: "P x \<Longrightarrow> \<exists>y. Inr x = Inr y \<and> P y"
  by simp

lemmas returns_with_rules =
  if_returns_with and_then_returns_with guarded_float_returns guarded_int_returns
  Inr_returns_with

lemma parse_channels_returns:
  assumes "0 \<le> idx"
  shows "\<exists>st'. parse_channels py_int py_float lines (config, idx) = Inr st' \<and> 0 \<le> snd st'"
proof -
  obtain achs idx1 where a: "channel_loop (parse_analog_channel py_int py_float) lines
       (nat (num_analog config)) 0 (analog_channels config, idx) = Inr (achs, idx1)" and i1: "0 \<le> idx1"
    using channel_loop_returns [where parse = "parse_analog_channel py_int py_float",
        OF parse_analog_channel_returns assms] by blast
  obtain dchs idx2 where d: "channel_loop (parse_digital_channel py_int) lines
       (nat (num_digital config)) 0 (digital_channels config, idx1) = Inr (dchs, idx2)" and i2: "0 \<le> idx2"
    using channel_loop_returns [where parse = "parse_digital_channel py_int",
        OF parse_digital_channel_returns i1] by blast
  show ?thesis
    by (simp add: parse_channels_def a d i2)
qed

lemma parse_line_freq_returns:
  assumes "0 \<le> idx"
  shows "\<exists>st'. parse_line_freq py_float lines (config, idx) = Inr st' \<and> 0 \<le> snd st'"
  unfolding parse_line_freq_def prod.case
  by (intro returns_with_rules) (use assms in simp_all)

lemma parse_start_timestamp_returns:
  assumes "0 \<le> idx"
  shows "\<exists>st'. parse_start_timestamp lines (config, idx) = Inr st' \<and> 0 \<le> snd st'"
  unfolding parse_start_timestamp_def prod.case
  by (intro returns_with_rules) (use assms in \<open>simp_all add: py_index_in_range\<close>)

lemma parse_trigger_timestamp_returns:
  assumes "0 \<le> idx"
  shows "\<exists>st'. parse_trigger_timestamp lines (config, idx) = Inr st' \<and> 0 \<le> snd st'"
  unfolding parse_trigger_timestamp_def prod.case
  by (intro returns_with_rules) (use assms in \<open>simp_all add: py_index_in_range\<close>)

lemma parse_data_format_returns:
  assumes "0 \<le> idx"
  shows "\<exists>st'. parse_data_format lines (config, idx) = Inr st' \<and> 0 \<le> snd st'"
  unfolding parse_data_format_def prod.case Let_def
  by (intro returns_with_rules) (use assms in \<open>simp_all add: py_index_in_range\<close>)

lemma parse_time_multiplier_returns:
  assumes "0 \<le> idx"
  shows "\<exists>st'. parse_time_multiplier py_float lines (config, idx) = Inr st' \<and> 0 \<le> snd st'"
  unfolding parse_time_multiplier_def prod.case
  by (intro returns_with_rules) (use assms in simp_all)

lemma parse_num_rates_returns:
  assumes "0 \<le> idx"
  shows "\<exists>r. parse_num_rates py_int lines idx = Inr r \<and> 0 \<le> snd r"
  unfolding parse_num_rates_def
  by (intro returns_with_rules) (use assms in simp_all)

lemma rates_loop_returns:
  assumes "0 \<le> idx"
  shows "\<exists>r. rates_loop py_int py_float lines k (rates, idx) = Inr r \<and> 0 \<le> snd r"
  using assms
proof (induction k arbitrary: rates idx)
  case 0
  then show ?case by simp
next
  case (Suc k)
  show ?case
  proof (cases "idx \<ge> int (length lines)")
    case True
    with Suc.prems show ?thesis by simp
  next
    case False
    let ?parts = "split_cfg_line (lines ! nat idx)"
    let ?step = "if length ?parts \<ge> 2
                 then except_ValueError
                        (and_then (and_then (py_index ?parts 0) (float_of py_float))
                           (\<lambda>rate.
                         and_then (and_then (py_index ?parts 1) (int_of py_int))
                           (\<lambda>end_sample. Inr (rates @ [(rate, end_sample)]))))
                        (Inr rates)
                 else Inr rates"
    have "\<not> isl ?step"
    proof (cases "length ?parts \<ge> 2")
      case True
      have "\<And>e. and_then (and_then (py_index ?parts 0) (float_of py_float))
                           (\<lambda>rate.
                         and_then (and_then (py_index ?parts 1) (int_of py_int))
                           (\<lambda>end_sample. Inr (rates @ [(rate, end_sample)]))) = Inl e \<Longrightarrow> e = ValueError"
      proof -
        fix e
        have p0: "py_index ?parts 0 = Inr (?parts ! 0)"
          using True by (auto simp: py_index_def)
        have p1: "py_index ?parts 1 = Inr (?parts ! 1)"
          using True by (simp add: py_index_def)
        assume "and_then (and_then (py_index ?parts 0) (float_of py_float))
                           (\<lambda>rate.
                         and_then (and_then (py_index ?parts 1) (int_of py_int))
                           (\<lambda>end_sample. Inr (rates @ [(rate, end_sample)]))) = Inl e"
        then show "e = ValueError"
          unfolding p0 p1
          by (auto simp: float_of_def int_of_def split: option.splits)
      qed
      then show ?thesis using True by (simp add: returns_except)
    next
      case False
      then show ?thesis by simp
    qed
    then obtain rates' where step: "?step = Inr rates'"
      by (cases ?step) auto
    have "0 \<le> idx + 1" using Suc.prems by simp
    from Suc.IH [OF this] obtain r where
      "rates_loop py_int py_float lines k (rates', idx + 1) = Inr r \<and> 0 \<le> snd r"
      by blast
    with False Suc.prems step show ?thesis
      by (simp add: py_index_in_range Let_def)
  qed
qed

lemma parse_rates_returns:
  assumes "0 \<le> idx"
  shows "\<exists>st'. parse_rates py_int py_float lines (config, idx) = Inr st' \<and> 0 \<le> snd st'"
proof -
  obtain n idx1 where n: "parse_num_rates py_int lines idx = Inr (n, idx1)" and i1: "0 \<le> idx1"
    using parse_num_rates_returns [OF assms] by force
  obtain rs idx2 where r: "rates_loop py_int py_float lines (nat (max n 1))
        (sampling_rates config, idx1) = Inr (rs, idx2)" and i2: "0 \<le> idx2"
    using rates_loop_returns [OF i1] by force
  show ?thesis
    by (simp add: parse_rates_def n r i2)
qed

text \<open>
  C1. For a configuration file that exists, \<^verbatim>\<open>parse_cfg\<close> raises \<^verbatim>\<open>ValueError\<close> when
  the file has fewer than two lines, and for a file of two lines or more it returns a
  configuration, whatever the lines hold and whatever \<^verbatim>\<open>int\<close> and \<^verbatim>\<open>float\<close> make of
  their fields: every conversion error is caught and every index is in range.
\<close>

theorem parse_cfg_total:
  "(length raw_lines < 2 \<longrightarrow> parse_cfg py_int py_float path (Some raw_lines) = Inl ValueError)
   \<and> (2 \<le> length raw_lines \<longrightarrow> (\<exists>config. parse_cfg py_int py_float path (Some raw_lines) = Inr config))"
proof (intro conjI impI)
  assume "length raw_lines < 2"
  then show "parse_cfg py_int py_float path (Some raw_lines) = Inl ValueError"
    by (simp add: parse_cfg_def)
next
  assume len: "2 \<le> length raw_lines"
  let ?lines = "map strip raw_lines"
  have l0: "(0::int) < int (length ?lines)" and l1: "(1::int) < int (length ?lines)"
    using len by auto
  obtain c1 where s1: "parse_line1 py_int ?lines (new_ComtradeConfig path, 0) = Inr (c1, 1)"
    using parse_line1_returns [of 0 ?lines py_int "new_ComtradeConfig path"] l0 by force
  obtain c2 where s2: "parse_line2 py_int ?lines (c1, 1) = Inr (c2, 2)"
    using parse_line2_returns [of 1 ?lines py_int c1] l1 by force
  obtain c3 i3 where s3: "parse_channels py_int py_float ?lines (c2, 2) = Inr (c3, i3)" and "0 \<le> i3"
    using parse_channels_returns [of 2 py_int py_float ?lines c2] by force
  then obtain c4 i4 where s4: "parse_line_freq py_float ?lines (c3, i3) = Inr (c4, i4)" and "0 \<le> i4"
    using parse_line_freq_returns [of i3 py_float ?lines c3] by force
  then obtain c5 i5 where s5: "parse_rates py_int py_float ?lines (c4, i4) = Inr (c5, i5)" and "0 \<le> i5"
    using parse_rates_returns [of i4 py_int py_float ?lines c4] by force
  then obtain c6 i6 where s6: "parse_start_timestamp ?lines (c5, i5) = Inr (c6, i6)" and "0 \<le> i6"
    using parse_start_timestamp_returns [of i5 ?lines c5] by force
  then obtain c7 i7 where s7: "parse_trigger_timestamp ?lines (c6, i6) = Inr (c7, i7)" and "0 \<le> i7"
    using parse_trigger_timestamp_returns [of i6 ?lines c6] by force
  then obtain c8 i8 where s8: "parse_data_format ?lines (c7, i7) = Inr (c8, i8)" and "0 \<le> i8"
    using parse_data_format_returns [of i7 ?lines c7] by force
  then obtain c9 i9 where s9: "parse_time_multiplier py_float ?lines (c8, i8) = Inr (c9, i9)"
    using parse_time_multiplier_returns [of i8 py_float ?lines c8] by force
  show "\<exists>config. parse_cfg py_int py_float path (Some raw_lines) = Inr config"
    using len by (simp add: parse_cfg_def s1 s2 s3 s4 s5 s6 s7 s8 s9)
qed

theorem parse_cfg_total_witness:
  "length [''STATION''] < 2
   \<and> parse_cfg ascii_int ascii_float ''rec.cfg'' (Some [''STATION'']) = Inl ValueError
   \<and> 2 \<le> length [''?,?,year'', ''x,yA,-D,zA'']
   \<and> (\<exists>config. parse_cfg ascii_int ascii_float ''rec.cfg''
                  (Some [''?,?,year'', ''x,yA,-D,zA'']) = Inr config)"
  using parse_cfg_total [where raw_lines = "[''STATION'']" and py_int = ascii_int
      and py_float = ascii_float and path = "''rec.cfg''"]
    parse_cfg_total [where raw_lines = "[''?,?,year'', ''x,yA,-D,zA'']" and py_int = ascii_int
      and py_float = ascii_float and path = "''rec.cfg''"]
  by simp

lemma float_field_default:
  "idx < length parts \<Longrightarrow> py_float (parts ! idx) = None
     \<Longrightarrow> float_field py_float parts idx d cur = Inr d"
  by (simp add: float_field_def py_index_in_range float_of_def except_ValueError_def
      is_ValueError_def)

lemma map_result_returns:
  assumes "\<And>x. x \<in> set xs \<Longrightarrow> \<not> isl (f x)"
  shows "\<exists>ys. map_result f xs = Inr ys \<and> length ys = length xs"
  using assms
proof (induction xs)
  case Nil
  show ?case by simp
next
  case (Cons x xs)
  obtain y where y: "f x = Inr y"
    using Cons.prems [of x] by (cases "f x") auto
  obtain ys where ys: "map_result f xs = Inr ys" "length ys = length xs"
    using Cons.IH Cons.prems by auto
  show ?case by (simp add: y ys)
qed

lemma analog_value_returns: "0 \<le> i \<Longrightarrow> \<not> isl (analog_value py_float parts i)"
  by (simp add: analog_value_def guarded_float_returns)

lemma digital_value_returns: "0 \<le> i \<Longrightarrow> \<not> isl (digital_value py_int parts i)"
  by (simp add: digital_value_def guarded_int_returns)

lemma py_range_length: "a \<le> b \<Longrightarrow> int (length (py_range a b)) = b - a"
  by (simp add: py_range_def)

lemma py_range_lower: "i \<in> set (py_range a b) \<Longrightarrow> a \<le> i"
  by (simp add: py_range_def)

lemma parse_dat_line_returns:
  assumes na: "0 \<le> config_num_analog config" and nd: "0 \<le> config_num_digital config"
  shows "parse_dat_line py_int py_float config raw_line = Inr None
       \<or> (\<exists>sn ts av dv. parse_dat_line py_int py_float config raw_line = Inr (Some (sn, ts, av, dv))
            \<and> int (length av) = config_num_analog config
            \<and> int (length dv) = config_num_digital config)"
proof -
  let ?line = "strip raw_line"
  let ?parts = "split_on CHR '','' ?line"
  let ?na = "config_num_analog config"
  let ?nd = "config_num_digital config"
  let ?header = "except_ValueError
                   (and_then (and_then (py_index ?parts 0) (int_of py_int))
                      (\<lambda>sample_num.
                    and_then (and_then (py_index ?parts 1) (int_of py_int))
                      (\<lambda>timestamp. Inr (Some (sample_num, timestamp)))))
                   (Inr None)"
  show ?thesis
  proof (cases "?line = [] \<or> length ?parts < 2")
    case True
    then show ?thesis by (auto simp: parse_dat_line_def Let_def)
  next
    case False
    then have len: "2 \<le> length ?parts" and ne: "?line \<noteq> []" by auto
    have p0: "py_index ?parts 0 = Inr (?parts ! 0)"
      using len by (auto simp: py_index_def)
    have p1: "py_index ?parts 1 = Inr (?parts ! 1)"
      using len by (auto simp: py_index_def)
    have "\<not> isl ?header"
      unfolding p0 p1
      by (rule returns_except) (auto simp: int_of_def split: option.splits)
    then obtain h where h: "?header = Inr h"
      by (cases ?header) auto
    show ?thesis
    proof (cases h)
      case None
      with h ne len show ?thesis
        by (simp add: parse_dat_line_def Let_def)
    next
      case (Some p)
      obtain sn ts where p: "p = (sn, ts)" by (cases p)
      have a_ok: "\<not> isl (analog_value py_float ?parts x)"
        if "x \<in> set (py_range 2 (2 + ?na))" for x
      proof -
        from that have "2 \<le> x" by (rule py_range_lower)
        then have "0 \<le> x" by simp
        then show ?thesis by (rule analog_value_returns)
      qed
      obtain av where av: "map_result (analog_value py_float ?parts) (py_range 2 (2 + ?na)) = Inr av"
        "length av = length (py_range 2 (2 + ?na))"
        using map_result_returns [of "py_range 2 (2 + ?na)" "analog_value py_float ?parts"] a_ok
        by blast
      have d_ok: "\<not> isl (digital_value py_int ?parts x)"
        if "x \<in> set (py_range (2 + ?na) (2 + ?na + ?nd))" for x
      proof -
        from that have "2 + ?na \<le> x" by (rule py_range_lower)
        with na have "0 \<le> x" by simp
        then show ?thesis by (rule digital_value_returns)
      qed
      obtain dv where dv: "map_result (digital_value py_int ?parts)
                             (py_range (2 + ?na) (2 + ?na + ?nd)) = Inr dv"
        "length dv = length (py_range (2 + ?na) (2 + ?na + ?nd))"
        using map_result_returns [of "py_range (2 + ?na) (2 + ?na + ?nd)"
            "digital_value py_int ?parts"] d_ok
        by blast
      have la: "int (length av) = ?na"
        using av(2) py_range_length [of 2 "2 + ?na"] na by simp
      have ld: "int (length dv) = ?nd"
        using dv(2) py_range_length [of "2 + ?na" "2 + ?na + ?nd"] nd by simp
      have "parse_dat_line py_int py_float config raw_line = Inr (Some (sn, ts, av, dv))"
        using h Some p ne len av(1) dv(1) by (simp add: parse_dat_line_def Let_def)
      with la ld show ?thesis by blast
    qed
  qed
qed

lemma dat_loop_returns:
  assumes "\<And>l. parse l = Inr None \<or> (\<exists>row. parse l = Inr (Some row) \<and> P row)"
  shows "\<exists>rows. dat_loop parse ls = Inr rows \<and> (\<forall>row \<in> set rows. P row)"
proof (induction ls)
  case Nil
  show ?case by simp
next
  case (Cons l ls)
  then obtain rows where rows: "dat_loop parse ls = Inr rows" "\<forall>row \<in> set rows. P row"
    by blast
  from assms [of l] show ?case
  proof
    assume "parse l = Inr None"
    with rows show ?thesis by simp
  next
    assume "\<exists>row. parse l = Inr (Some row) \<and> P row"
    then obtain row where "parse l = Inr (Some row)" "P row" by blast
    with rows show ?thesis by simp
  qed
qed

text \<open>
  What \<^verbatim>\<open>parse_dat_ascii\<close> does when the two channel counts are not negative: it
  returns for every list of lines, and every row has as many analog values as the analog
  count and as many digital values as the digital count.
\<close>

lemma parse_dat_ascii_nonnegative_counts:
  assumes "0 \<le> config_num_analog config" and "0 \<le> config_num_digital config"
  shows "\<exists>rows. parse_dat_ascii py_int py_float config (Some raw_lines) = Inr rows
            \<and> (\<forall>(sample_num, timestamp, analog_vals, digital_vals) \<in> set rows.
                  int (length analog_vals) = config_num_analog config
                \<and> int (length digital_vals) = config_num_digital config)"
proof -
  let ?P = "\<lambda>row. case row of (sample_num, timestamp, analog_vals, digital_vals) \<Rightarrow>
                  int (length analog_vals) = config_num_analog config
                \<and> int (length digital_vals) = config_num_digital config"
  have "parse_dat_line py_int py_float config l = Inr None
          \<or> (\<exists>row. parse_dat_line py_int py_float config l = Inr (Some row) \<and> ?P row)" for l
    using parse_dat_line_returns [OF assms, of py_int py_float l]
  proof
    assume "parse_dat_line py_int py_float config l = Inr None"
    then show ?thesis by (rule disjI1)
  next
    assume "\<exists>sn ts av dv. parse_dat_line py_int py_float config l = Inr (Some (sn, ts, av, dv))
            \<and> int (length av) = config_num_analog config
            \<and> int (length dv) = config_num_digital config"
    then obtain sn ts av dv where
      "parse_dat_line py_int py_float config l = Inr (Some (sn, ts, av, dv))"
      "?P (sn, ts, av, dv)"
      by auto
    then show ?thesis by blast
  qed
  from dat_loop_returns [of "parse_dat_line py_int py_float config" ?P raw_lines, OF this]
  show ?thesis
    by (simp add: parse_dat_ascii_def)
qed

text \<open>
  The values of such a row: the field of the line at each position, converted, and 0.0 or
  0 where the field is no number or the line has no field at that position.
\<close>

lemma map_result_map:
  assumes "\<And>x. x \<in> set xs \<Longrightarrow> f x = Inr (g x)"
  shows "map_result f xs = Inr (map g xs)"
  using assms by (induction xs) simp_all

lemma analog_value_eq:
  "0 \<le> i \<Longrightarrow> analog_value py_float parts i =
     Inr (if i < int (length parts)
          then (case py_float (parts ! nat i) of Some v \<Rightarrow> v | None \<Rightarrow> 0)
          else 0)"
  by (simp add: analog_value_def py_index_in_range float_of_def except_ValueError_def
      is_ValueError_def split: option.splits)

lemma digital_value_eq:
  "0 \<le> i \<Longrightarrow> digital_value py_int parts i =
     Inr (if i < int (length parts)
          then (case py_int (parts ! nat i) of Some v \<Rightarrow> v | None \<Rightarrow> 0)
          else 0)"
  by (simp add: digital_value_def py_index_in_range int_of_def except_ValueError_def
      is_ValueError_def split: option.splits)

lemma parse_dat_line_row:
  assumes na: "0 \<le> config_num_analog config" and nd: "0 \<le> config_num_digital config"
      and line: "strip raw_line \<noteq> []"
      and parts: "parts = split_on CHR '','' (strip raw_line)"
      and len: "2 \<le> length parts"
      and sn: "py_int (parts ! 0) = Some sample_num"
      and ts: "py_int (parts ! 1) = Some timestamp"
  shows "parse_dat_line py_int py_float config raw_line =
           Inr (Some (sample_num, timestamp,
                      map (\<lambda>i. if i < int (length parts)
                                then (case py_float (parts ! nat i) of
                                        Some v \<Rightarrow> v | None \<Rightarrow> 0)
                                else 0)
                        (py_range 2 (2 + config_num_analog config)),
                      map (\<lambda>i. if i < int (length parts)
                                then (case py_int (parts ! nat i) of
                                        Some v \<Rightarrow> v | None \<Rightarrow> 0)
                                else 0)
                        (py_range (2 + config_num_analog config)
                           (2 + config_num_analog config + config_num_digital config))))"
proof -
  let ?na = "config_num_analog config"
  let ?nd = "config_num_digital config"
  let ?fa = "\<lambda>i. if i < int (length parts)
                  then (case py_float (parts ! nat i) of Some v \<Rightarrow> v | None \<Rightarrow> 0)
                  else 0"
  let ?fd = "\<lambda>i. if i < int (length parts)
                  then (case py_int (parts ! nat i) of Some v \<Rightarrow> v | None \<Rightarrow> 0)
                  else 0"
  have p0: "py_index parts 0 = Inr (parts ! 0)"
    using len by (auto simp: py_index_def)
  have p1: "py_index parts 1 = Inr (parts ! 1)"
    using len by (auto simp: py_index_def)
  have av: "map_result (analog_value py_float parts) (py_range 2 (2 + ?na)) =
              Inr (map ?fa (py_range 2 (2 + ?na)))"
  proof (rule map_result_map)
    fix x assume "x \<in> set (py_range 2 (2 + ?na))"
    then have "2 \<le> x" by (rule py_range_lower)
    then have "0 \<le> x" by simp
    then show "analog_value py_float parts x = Inr (?fa x)"
      by (rule analog_value_eq)
  qed
  have dv: "map_result (digital_value py_int parts) (py_range (2 + ?na) (2 + ?na + ?nd)) =
              Inr (map ?fd (py_range (2 + ?na) (2 + ?na + ?nd)))"
  proof (rule map_result_map)
    fix x assume "x \<in> set (py_range (2 + ?na) (2 + ?na + ?nd))"
    then have "2 + ?na \<le> x" by (rule py_range_lower)
    with na have "0 \<le> x" by simp
    then show "digital_value py_int parts x = Inr (?fd x)"
      by (rule digital_value_eq)
  qed
  have hd: "except_ValueError
              (and_then (and_then (py_index parts 0) (int_of py_int))
                 (\<lambda>sample_num.
               and_then (and_then (py_index parts 1) (int_of py_int))
                 (\<lambda>timestamp. Inr (Some (sample_num, timestamp)))))
              (Inr None) = Inr (Some (sample_num, timestamp))"
    using sn ts by (simp add: p0 p1 int_of_def)
  have len': "\<not> length (split_on CHR '','' (strip raw_line)) < 2"
    using len parts by simp
  show ?thesis
    unfolding parse_dat_line_def Let_def
    using line len' hd av dv by (simp add: parts [symmetric])
qed

lemma parse_dat_ascii_sample:
  "parse_dat_ascii ascii_int ascii_float (Some config_2A_1D)
     (Some [''1,0,5,x,1'', ''2,10'', ''bad'']) =
   Inr [(1, 0, [5, 0], [1]), (2, 10, [0, 0], [0])]"
  by code_simp

text \<open>
  C8. \<^verbatim>\<open>parse_cfg\<close> accepts the channel-count line \<^verbatim>\<open>2,-5A,1D\<close> and leaves a
  configuration with the analog count -5. With it, \<^verbatim>\<open>parse_dat_ascii\<close> does not pad the
  short line \<^verbatim>\<open>1,2\<close>: the digital value is read at position -3, which passes the test
  \<^verbatim>\<open>i < len(parts)\<close> and is outside the list, so \<^verbatim>\<open>IndexError\<close> leaves the function.
\<close>

theorem parse_dat_ascii_negative_count_raises:
  "parse_cfg ascii_int ascii_float ''rec.cfg'' (Some [''S,D,1999'', ''2,-5A,1D'']) =
     Inr config_negative_count
   \<and> parse_dat_ascii ascii_int ascii_float (Some config_negative_count) (Some [''1,2'']) =
       Inl IndexError"
  by code_simp

section \<open>Properties of the backing file of the alias store\<close>

lemma load_not_JSON: "load Not_JSON = Some (Inr [])"
  by (simp add: load_def load_body_def)

lemma load_bad_entry: "load (Content (JDict [(k, JInt n)])) = Some (Inr [])"
  by (simp add: load_def load_body_def new_AliasEntry_def)

lemma load_not_UTF8: "load Not_UTF8 = Some (Inl UnicodeDecodeError)"
  by (simp add: load_def load_body_def)

text \<open>
  C5. A backing file that holds a JSON value other than an object is malformed, and loading
  it does not give an empty store: \<^verbatim>\<open>raw.items()\<close> raises \<^verbatim>\<open>AttributeError\<close>, which is
  not among the exceptions the handler catches, so the exception leaves the constructor.
\<close>

theorem load_non_object_raises:
  "load (Content (JList [])) = Some (Inl AttributeError)"
  by (simp add: load_def load_body_def)

lemma dict_set_same:
  "distinct (map fst d) \<Longrightarrow> (k, v) \<in> set d \<Longrightarrow> dict_set d k v = d"
proof (induction d k v rule: dict_set.induct)
  case (1 k v)
  then show ?case by simp
next
  case (2 k' v' kvs k v)
  then show ?case by (auto simp: rev_image_eqI)
qed

lemma new_AliasEntry_entry_to_json: "new_AliasEntry (entry_to_json e) = Some (Inr e)"
  by (simp add: new_AliasEntry_def entry_to_json_def AliasEntry_fields_def str_field_def
      bool_field_def)

lemma add_present:
  assumes "is_dict entries" and "(key e, e) \<in> set entries"
  shows "add entries e = (False, entries)"
proof -
  have "key e \<in> set (map fst entries)"
    using assms(2) by (force simp: image_iff)
  moreover have "dict_set entries (key e) e = entries"
    using assms by (simp add: dict_set_same is_dict_def)
  ultimately show ?thesis by (simp add: add_def)
qed

lemma import_items_present:
  assumes "is_dict entries"
      and "\<forall>(k, e) \<in> set xs. (key e, e) \<in> set entries"
  shows "import_items entries c (map (\<lambda>(k, entry). (k, entry_to_json entry)) xs) =
           Some (entries, Inr c)"
  using assms(2)
proof (induction xs)
  case Nil
  show ?case by simp
next
  case (Cons x xs)
  obtain k e where x: "x = (k, e)" by (cases x)
  with Cons.prems have "(key e, e) \<in> set entries" by simp
  then have "add entries e = (False, entries)"
    using assms(1) by (simp add: add_present)
  moreover have "import_items entries c (map (\<lambda>(k, entry). (k, entry_to_json entry)) xs) =
           Some (entries, Inr c)"
    using Cons by simp
  ultimately show ?case
    by (simp add: x new_AliasEntry_entry_to_json)
qed

text \<open>
  C7 (as amended). For a store in which every entry is stored under its own key
  \<^verbatim>\<open>relay_model::relay_name\<close> (the keys of a dictionary are pairwise distinct), exporting
  and then importing the exported value leaves the store as it was, every entry with the
  same fields at the same place, and reports zero new insertions: each imported entry
  overwrites the entry under its key.
\<close>

theorem export_import_round_trip:
  assumes "is_dict entries" and "\<forall>(k, e) \<in> set entries. k = key e"
  shows "import_from_json entries (export_to_json entries) = Some (entries, Inr 0)"
proof -
  have "\<forall>(k, e) \<in> set entries. (key e, e) \<in> set entries"
    using assms(2) by auto
  from import_items_present [OF assms(1) this]
  show ?thesis by (simp add: import_from_json_def export_to_json_def)
qed

theorem export_import_round_trip_witness:
  "is_dict [(''M::ia'', entry_ia_lower), (''M::IA'', entry_ia_upper)]
   \<and> ''M::ia'' = key entry_ia_lower
   \<and> ''M::IA'' = key entry_ia_upper
   \<and> import_from_json [(''M::ia'', entry_ia_lower), (''M::IA'', entry_ia_upper)]
         (export_to_json [(''M::ia'', entry_ia_lower), (''M::IA'', entry_ia_upper)]) =
       Some ([(''M::ia'', entry_ia_lower), (''M::IA'', entry_ia_upper)], Inr 0)"
proof -
  have d: "is_dict [(''M::ia'', entry_ia_lower), (''M::IA'', entry_ia_upper)]"
    by (simp add: is_dict_def)
  have k1: "''M::ia'' = key entry_ia_lower" and k2: "''M::IA'' = key entry_ia_upper"
    by (simp_all add: key_def entry_ia_lower_def entry_ia_upper_def)
  have c: "\<forall>(k, e) \<in> set [(''M::ia'', entry_ia_lower), (''M::IA'', entry_ia_upper)]. k = key e"
    using k1 k2 by simp
  show ?thesis
    using d k1 k2 export_import_round_trip [OF d c] by blast
qed

text \<open>
  C7 as stated fails for a store with an entry under another key than its own, as
  \<^verbatim>\<open>_load\<close> builds from a file edited by hand: the import stores the entry again under
  its own key and counts one new insertion.
\<close>

theorem export_import_round_trip_counterexample:
  "load (Content (JDict [(''manual'', entry_to_json entry_ia_lower)])) =
     Some (Inr [(''manual'', entry_ia_lower)])
   \<and> import_from_json [(''manual'', entry_ia_lower)]
         (export_to_json [(''manual'', entry_ia_lower)]) =
       Some ([(''manual'', entry_ia_lower), (''M::ia'', entry_ia_lower)], Inr 1)"
  by (simp add: load_def load_body_def import_from_json_def export_to_json_def
      new_AliasEntry_entry_to_json add_def key_def entry_ia_lower_def)

section \<open>Properties of the disturbance-report extraction\<close>

lemma channel_signal_channel:
  "channel_signal params block_name j = Some s \<Longrightarrow> dr_channel s = int j \<and> dr_block s = block_name"
  by (auto simp: channel_signal_def Let_def split: option.splits if_splits)

lemma channel_signal_Some_iff:
  "channel_signal params block_name i \<noteq> None
     \<longleftrightarrow> (params (''NAME'' @ str_nat i) \<noteq> None \<or> params (''NAME'' @ pad2 i) \<noteq> None)"
  by (auto simp: channel_signal_def Let_def split: option.splits)

lemma set_map_filter: "y \<in> set (List.map_filter f xs) \<longleftrightarrow> (\<exists>x \<in> set xs. f x = Some y)"
  by (induction xs) (auto simp: map_filter_simps split: option.splits)

lemma block_signals_iff:
  "s \<in> set (block_signals params block_name)
     \<longleftrightarrow> (\<exists>j \<in> {1..96}. channel_signal params block_name j = Some s)"
proof -
  have "set [1..<97] = {1..96::nat}" by auto
  then show ?thesis
    by (simp add: block_signals_def set_map_filter)
qed

text \<open>
  C9. For the parameter map of a disturbance-report block and each channel index from 1
  to 96, a signal with that channel number is emitted if and only if the map has the key
  \<^verbatim>\<open>NAME\<close> followed by the index, plain or zero-padded to two digits. Every emitted
  signal has a channel number from 1 to 96 and carries the block's name.
\<close>

theorem disturbance_channel_emitted:
  "(\<forall>i \<in> {1..96}.
      (\<exists>s \<in> set (block_signals params block_name). dr_channel s = int i)
      \<longleftrightarrow> (params (''NAME'' @ str_nat i) \<noteq> None \<or> params (''NAME'' @ pad2 i) \<noteq> None))
   \<and> (\<forall>s \<in> set (block_signals params block_name).
         1 \<le> dr_channel s \<and> dr_channel s \<le> 96 \<and> dr_block s = block_name)"
proof (rule conjI)
  show "\<forall>i \<in> {1..96}.
      (\<exists>s \<in> set (block_signals params block_name). dr_channel s = int i)
      \<longleftrightarrow> (params (''NAME'' @ str_nat i) \<noteq> None \<or> params (''NAME'' @ pad2 i) \<noteq> None)"
  proof
    fix i :: nat assume i: "i \<in> {1..96}"
    have "(\<exists>s \<in> set (block_signals params block_name). dr_channel s = int i)
          \<longleftrightarrow> channel_signal params block_name i \<noteq> None"
    proof
      assume "\<exists>s \<in> set (block_signals params block_name). dr_channel s = int i"
      then obtain s j where "channel_signal params block_name j = Some s" "dr_channel s = int i"
        using block_signals_iff by blast
      with channel_signal_channel [of params block_name j s]
      show "channel_signal params block_name i \<noteq> None" by auto
    next
      assume "channel_signal params block_name i \<noteq> None"
      then obtain s where s: "channel_signal params block_name i = Some s" by auto
      with i have "s \<in> set (block_signals params block_name)"
        using block_signals_iff by blast
      with channel_signal_channel [OF s]
      show "\<exists>s \<in> set (block_signals params block_name). dr_channel s = int i"
        by blast
    qed
    then show "(\<exists>s \<in> set (block_signals params block_name). dr_channel s = int i)
      \<longleftrightarrow> (params (''NAME'' @ str_nat i) \<noteq> None \<or> params (''NAME'' @ pad2 i) \<noteq> None)"
      by (simp only: channel_signal_Some_iff)
  qed
next
  show "\<forall>s \<in> set (block_signals params block_name).
         1 \<le> dr_channel s \<and> dr_channel s \<le> 96 \<and> dr_block s = block_name"
  proof
    fix s assume "s \<in> set (block_signals params block_name)"
    then obtain j where j: "j \<in> {1..96}" "channel_signal params block_name j = Some s"
      using block_signals_iff by blast
    with channel_signal_channel [OF j(2)]
    show "1 \<le> dr_channel s \<and> dr_channel s \<le> 96 \<and> dr_block s = block_name"
      by auto
  qed
qed

theorem disturbance_channel_emitted_witness:
  "(2::nat) \<in> {1..96}
   \<and> sample_params (''NAME'' @ pad2 2) \<noteq> None
   \<and> int 2 \<in> dr_channel ` set (block_signals sample_params ''B1RBDR'')
   \<and> (3::nat) \<in> {1..96}
   \<and> sample_params (''NAME'' @ str_nat 3) = None
   \<and> sample_params (''NAME'' @ pad2 3) = None
   \<and> int 3 \<notin> dr_channel ` set (block_signals sample_params ''B1RBDR'')"
proof -
  have i2: "(2::nat) \<in> {1..96}" and i3: "(3::nat) \<in> {1..96}"
    by simp_all
  have n2: "sample_params (''NAME'' @ pad2 2) \<noteq> None"
    by code_simp
  have n3: "sample_params (''NAME'' @ str_nat 3) = None"
    by code_simp
  have p3: "sample_params (''NAME'' @ pad2 3) = None"
    by code_simp
  note t = disturbance_channel_emitted [of sample_params "''B1RBDR''"]
  have e2: "int 2 \<in> dr_channel ` set (block_signals sample_params ''B1RBDR'')"
    using t i2 n2 by force
  have e3: "int 3 \<notin> dr_channel ` set (block_signals sample_params ''B1RBDR'')"
    using t i3 n3 p3 by force
  show ?thesis
    using i2 i3 n2 n3 p3 e2 e3 by blast
qed

end
